theory Spec2Isabelle
  imports Complex_Main "HOL-Library.Log_Nat" "HOL-Library.Sublist" "HOL-Library.Multiset"
begin

section \<open>JavaScript values used by the dashboard pages\<close>

subsection \<open>Numbers\<close>

text \<open>
  Every numeric field of the pages (\<open>quantity\<close>, \<open>price\<close>, \<open>amount\<close>, \<open>total\<close>, ...) has the
  TypeScript type \<open>number\<close>, an IEEE 754 binary64 value. A finite value is kept as the
  rational it denotes; the two infinities and NaN are separate constructors. Negative zero
  is identified with zero: \<open>===\<close>, \<open><\<close>, \<open><=\<close> and truthiness do not tell them apart, and the
  modelled code divides only by a positive array length.
\<close>

datatype js_number = Num rat | PosInf | NegInf | NaN

text \<open>For positive \<open>r\<close>, the exponent \<open>e\<close> with \<open>2\<^sup>e \<le> r < 2\<^sup>e\<^sup>+\<^sup>1\<close>.\<close>

definition floor_log2 :: "rat \<Rightarrow> int" where
  "floor_log2 r = (case quotient_of r of (p, q) \<Rightarrow>
     let d = bitlen p - bitlen q in if 2 powi d \<le> r then d else d - 1)"

definition round_half_even :: "rat \<Rightarrow> int" where
  "round_half_even x = (let f = \<lfloor>x\<rfloor>; d = x - of_int f in
     if d < 1 / 2 then f else if 1 / 2 < d then f + 1 else if even f then f else f + 1)"

text \<open>
  Rounding of an exact result to binary64, round-to-nearest, ties to even: 53 significant
  bits, exponents from \<open>-1022\<close> (below which the spacing stays \<open>2\<^sup>-\<^sup>1\<^sup>0\<^sup>7\<^sup>4\<close>, the
  subnormal range) and overflow to an infinity from \<open>2\<^sup>1\<^sup>0\<^sup>2\<^sup>4\<close> on.
\<close>

definition round_binary64 :: "rat \<Rightarrow> js_number" where
  "round_binary64 r = (if r = 0 then Num 0 else
     let a = \<bar>r\<bar>;
         e = max (floor_log2 a) (- 1022);
         ulp = 2 powi (e - 52);
         v = of_int (round_half_even (a / ulp)) * ulp
     in if 2 ^ 1024 \<le> v then (if 0 < r then PosInf else NegInf)
        else Num (if 0 < r then v else - v))"

fun js_add :: "js_number \<Rightarrow> js_number \<Rightarrow> js_number" where
  "js_add (Num a) (Num b) = round_binary64 (a + b)"
| "js_add NaN _ = NaN"
| "js_add _ NaN = NaN"
| "js_add PosInf NegInf = NaN"
| "js_add NegInf PosInf = NaN"
| "js_add PosInf _ = PosInf"
| "js_add _ PosInf = PosInf"
| "js_add NegInf _ = NegInf"
| "js_add _ NegInf = NegInf"

fun js_neg :: "js_number \<Rightarrow> js_number" where
  "js_neg (Num a) = Num (- a)"
| "js_neg PosInf = NegInf"
| "js_neg NegInf = PosInf"
| "js_neg NaN = NaN"

definition js_sub :: "js_number \<Rightarrow> js_number \<Rightarrow> js_number" where
  "js_sub a b = js_add a (js_neg b)"

text \<open>The sign of a number, as \<open>-1\<close>, \<open>0\<close> or \<open>1\<close>; NaN has none.\<close>

fun js_sign :: "js_number \<Rightarrow> int" where
  "js_sign (Num a) = (if a < 0 then - 1 else if a = 0 then 0 else 1)"
| "js_sign PosInf = 1"
| "js_sign NegInf = - 1"
| "js_sign NaN = 0"

fun js_mul :: "js_number \<Rightarrow> js_number \<Rightarrow> js_number" where
  "js_mul (Num a) (Num b) = round_binary64 (a * b)"
| "js_mul NaN _ = NaN"
| "js_mul _ NaN = NaN"
| "js_mul a b =
     (if js_sign a * js_sign b = 0 then NaN
      else if 0 < js_sign a * js_sign b then PosInf else NegInf)"


text \<open>The relational operators; every comparison with NaN is false.\<close>

fun js_lt :: "js_number \<Rightarrow> js_number \<Rightarrow> bool" where
  "js_lt (Num a) (Num b) = (a < b)"
| "js_lt NaN _ = False"
| "js_lt _ NaN = False"
| "js_lt _ NegInf = False"
| "js_lt NegInf _ = True"
| "js_lt PosInf _ = False"
| "js_lt _ PosInf = True"

definition js_gt :: "js_number \<Rightarrow> js_number \<Rightarrow> bool" where
  "js_gt a b = js_lt b a"

definition js_le :: "js_number \<Rightarrow> js_number \<Rightarrow> bool" where
  "js_le a b = (a \<noteq> NaN \<and> b \<noteq> NaN \<and> \<not> js_lt b a)"

text \<open>Strict equality \<open>===\<close> of two numbers.\<close>

definition js_strict_eq :: "js_number \<Rightarrow> js_number \<Rightarrow> bool" where
  "js_strict_eq a b = (a \<noteq> NaN \<and> a = b)"

text \<open>\<open>ToBoolean\<close> on a number: zero and NaN are falsy.\<close>

definition truthy :: "js_number \<Rightarrow> bool" where
  "truthy a = (a \<noteq> Num 0 \<and> a \<noteq> NaN)"

text \<open>
  \<open>Number(x)\<close> for a field of type \<open>number | undefined\<close> (\<open>None\<close> is \<open>undefined\<close>), and the
  idiom \<open>Number(x) || d\<close> used wherever the pages read a numeric form field.
\<close>

definition Number :: "js_number option \<Rightarrow> js_number" where
  "Number x = (case x of None \<Rightarrow> NaN | Some n \<Rightarrow> n)"

definition number_or :: "js_number option \<Rightarrow> js_number \<Rightarrow> js_number" where
  "number_or x d = (if truthy (Number x) then Number x else d)"


subsection \<open>Strings\<close>

text \<open>
  Strings are sequences of code units below 256. \<open>trim\<close> removes the white space and line
  terminators of that range from both ends; \<open>toLowerCase\<close> maps the capital letters of that
  range; \<open>includes\<close> (here \<open>js_includes\<close>) is the search for a contiguous substring.
\<close>

definition is_js_space :: "char \<Rightarrow> bool" where
  "is_js_space c = ((of_char c :: nat) \<in> {9, 10, 11, 12, 13, 32, 160})"

definition trim :: "string \<Rightarrow> string" where
  "trim s = rev (dropWhile is_js_space (rev (dropWhile is_js_space s)))"

definition lower_char :: "char \<Rightarrow> char" where
  "lower_char c = (let n = (of_char c :: nat) in
     if (65 \<le> n \<and> n \<le> 90) \<or> (192 \<le> n \<and> n \<le> 222 \<and> n \<noteq> 215)
     then char_of (n + 32) else c)"

definition toLowerCase :: "string \<Rightarrow> string" where
  "toLowerCase s = map lower_char s"

definition js_includes :: "string \<Rightarrow> string \<Rightarrow> bool" where
  "js_includes s t = sublist t s"

text \<open>
  \<open>!x\<close>, \<open>x || d\<close> and \<open>x || null\<close> for an optional string (\<open>None\<close> is \<open>undefined\<close> or
  \<open>null\<close>): the empty string is falsy as well.
\<close>

definition falsy_str :: "string option \<Rightarrow> bool" where
  "falsy_str x = (case x of None \<Rightarrow> True | Some s \<Rightarrow> s = [])"

definition str_or :: "string option \<Rightarrow> string \<Rightarrow> string" where
  "str_or x d = (case x of None \<Rightarrow> d | Some s \<Rightarrow> if s = [] then d else s)"

definition str_or_null :: "string option \<Rightarrow> string option" where
  "str_or_null x = (case x of None \<Rightarrow> None | Some s \<Rightarrow> if s = [] then None else Some s)"

text \<open>\<open>!x\<close> for an optional number: \<open>undefined\<close>, zero and NaN are falsy.\<close>

definition falsy_num :: "js_number option \<Rightarrow> bool" where
  "falsy_num x = (case x of None \<Rightarrow> True | Some n \<Rightarrow> \<not> truthy n)"

text \<open>
  The test \<open>/^[^\s@]+@[^\s@]+\.[^\s@]+$/.test(s)\<close>: a non-empty run without white space
  and \<open>@\<close>, then \<open>@\<close>, then such a run to the end of the string that has a dot with at least
  one character on each side.
\<close>

definition email_char :: "char \<Rightarrow> bool" where
  "email_char c = (\<not> is_js_space c \<and> c \<noteq> CHR ''@'')"

definition email_regex_test :: "string \<Rightarrow> bool" where
  "email_regex_test s =
     (takeWhile email_char s \<noteq> [] \<and>
      (case dropWhile email_char s of
         [] \<Rightarrow> False
       | c # t \<Rightarrow> c = CHR ''@'' \<and> list_all email_char t \<and> CHR ''.'' \<in> set (butlast (tl t))))"

subsection \<open>Notifications\<close>

text \<open>A call \<open>toast.error(title, {description})\<close> or \<open>toast.success(title, {description})\<close>.\<close>

datatype toast = Toast_error string string | Toast_success string string

section \<open>Products page\<close>

text \<open>The row type \<open>Database['public']['Tables']['products']['Row']\<close>.\<close>

record product =
  id' :: string
  user_id :: string
  name :: string
  category :: string
  quantity :: js_number
  price :: js_number
  min_stock :: js_number
  created_at :: string
  updated_at :: string

text \<open>The form state \<open>Partial<Product>\<close>: every field may be missing.\<close>

record product_form =
  name :: "string option"
  category :: "string option"
  quantity :: "js_number option"
  price :: "js_number option"
  min_stock :: "js_number option"

text \<open>
  The effect that computes \<open>filteredProducts\<close> from \<open>products\<close>, \<open>searchTerm\<close>,
  \<open>categoryFilter\<close> and \<open>stockFilter\<close>, one definition for each of its three steps.
\<close>

definition products_search :: "string \<Rightarrow> product list \<Rightarrow> product list" where
  "products_search searchTerm filtered =
     (if trim searchTerm \<noteq> [] then
        filter (\<lambda>p. js_includes (toLowerCase (product.name p)) (toLowerCase searchTerm) \<or>
                    js_includes (toLowerCase (product.category p)) (toLowerCase searchTerm))
          filtered
      else filtered)"

definition products_category :: "string \<Rightarrow> product list \<Rightarrow> product list" where
  "products_category categoryFilter filtered =
     (if categoryFilter \<noteq> ''all'' then
        filter (\<lambda>p. product.category p = categoryFilter) filtered
      else filtered)"

definition products_stock :: "string \<Rightarrow> product list \<Rightarrow> product list" where
  "products_stock stockFilter filtered =
     (if stockFilter = ''low'' then
        filter (\<lambda>p. js_le (product.quantity p) (product.min_stock p)) filtered
      else if stockFilter = ''out'' then
        filter (\<lambda>p. js_strict_eq (product.quantity p) (Num 0)) filtered
      else if stockFilter = ''instock'' then
        filter (\<lambda>p. js_gt (product.quantity p) (product.min_stock p)) filtered
      else filtered)"

definition filteredProducts ::
  "product list \<Rightarrow> string \<Rightarrow> string \<Rightarrow> string \<Rightarrow> product list" where
  "filteredProducts products searchTerm categoryFilter stockFilter =
     products_stock stockFilter
       (products_category categoryFilter (products_search searchTerm products))"

text \<open>
  \<open>validateForm\<close> of the products page. It returns the boolean together with the
  notifications it has sent.
\<close>

definition products_validateForm :: "product_form \<Rightarrow> bool \<times> toast list" where
  "products_validateForm formData =
     (if falsy_str (map_option trim (product_form.name formData)) then
        (False, [Toast_error ''Validation Error'' ''Product name is required.''])
      else if falsy_str (map_option trim (product_form.category formData)) then
        (False, [Toast_error ''Validation Error'' ''Category is required.''])
      else if falsy_num (product_form.price formData) \<or>
              js_le (Number (product_form.price formData)) (Num 0) then
        (False, [Toast_error ''Validation Error'' ''Price must be greater than zero.''])
      else if product_form.quantity formData \<noteq> None \<and>
              js_lt (Number (product_form.quantity formData)) (Num 0) then
        (False, [Toast_error ''Validation Error'' ''Quantity cannot be negative.''])
      else if product_form.min_stock formData \<noteq> None \<and>
              js_lt (Number (product_form.min_stock formData)) (Num 0) then
        (False, [Toast_error ''Validation Error'' ''Minimum stock cannot be negative.''])
      else (True, []))"

text \<open>The three badges \<open>getStockBadge\<close> renders, named by their labels.\<close>

datatype stock_badge = Out_of_Stock | Low_Stock | In_Stock

definition getStockBadge :: "js_number \<Rightarrow> js_number \<Rightarrow> stock_badge" where
  "getStockBadge qty minStock =
     (if js_strict_eq qty (Num 0) then Out_of_Stock
      else if js_le qty minStock then Low_Stock
      else In_Stock)"

section \<open>Sale items and purchase items pages\<close>

text \<open>
  The row types of \<open>sale_items\<close> and \<open>purchase_items\<close> are not declared in \<open>types.ts\<close>; the
  fields are those the pages read and write.
\<close>

record sale_item =
  id' :: string
  sale_id :: string
  product_id :: "string option"
  product_name :: string
  quantity :: js_number
  price :: js_number
  total :: js_number
  created_at :: string

record purchase_item =
  id' :: string
  purchase_id :: string
  product_id :: "string option"
  product_name :: string
  quantity :: js_number
  price :: js_number
  total :: js_number
  created_at :: string

record sale_item_form =
  sale_id :: "string option"
  product_id :: "string option"
  product_name :: "string option"
  quantity :: "js_number option"
  price :: "js_number option"
  total :: "js_number option"

record purchase_item_form =
  purchase_id :: "string option"
  product_id :: "string option"
  product_name :: "string option"
  quantity :: "js_number option"
  price :: "js_number option"
  total :: "js_number option"




text \<open>
  The effect of the sale items page that recomputes \<open>formData.total\<close> when the quantity or
  the price of the form changes. \<open>formData.total !== total\<close> is true for a missing total and
  for NaN.
\<close>

definition saleItems_totalEffect :: "sale_item_form \<Rightarrow> sale_item_form" where
  "saleItems_totalEffect formData =
     (let qty = number_or (sale_item_form.quantity formData) (Num 0);
          prc = number_or (sale_item_form.price formData) (Num 0);
          tot = js_mul qty prc
      in if \<not> js_strict_eq (Number (sale_item_form.total formData)) tot
         then formData\<lparr>sale_item_form.total := Some tot\<rparr>
         else formData)"

definition saleItems_validateForm :: "sale_item_form \<Rightarrow> bool \<times> toast list" where
  "saleItems_validateForm formData =
     (if falsy_str (sale_item_form.sale_id formData) then
        (False, [Toast_error ''Validation Error'' ''Sale selection is required.''])
      else if falsy_str (map_option trim (sale_item_form.product_name formData)) then
        (False, [Toast_error ''Validation Error'' ''Product name is required.''])
      else if falsy_num (sale_item_form.quantity formData) \<or>
              js_le (Number (sale_item_form.quantity formData)) (Num 0) then
        (False, [Toast_error ''Validation Error'' ''Quantity must be greater than zero.''])
      else if falsy_num (sale_item_form.price formData) \<or>
              js_le (Number (sale_item_form.price formData)) (Num 0) then
        (False, [Toast_error ''Validation Error'' ''Price must be greater than zero.''])
      else (True, []))"

definition purchaseItems_validateForm :: "purchase_item_form \<Rightarrow> bool \<times> toast list" where
  "purchaseItems_validateForm formData =
     (if falsy_str (purchase_item_form.purchase_id formData) then
        (False, [Toast_error ''Validation Error'' ''Purchase selection is required.''])
      else if falsy_str (map_option trim (purchase_item_form.product_name formData)) then
        (False, [Toast_error ''Validation Error'' ''Product name is required.''])
      else if falsy_num (purchase_item_form.quantity formData) \<or>
              js_le (Number (purchase_item_form.quantity formData)) (Num 0) then
        (False, [Toast_error ''Validation Error'' ''Quantity must be greater than zero.''])
      else if falsy_num (purchase_item_form.price formData) \<or>
              js_le (Number (purchase_item_form.price formData)) (Num 0) then
        (False, [Toast_error ''Validation Error'' ''Price must be greater than zero.''])
      else (True, []))"

section \<open>Customers and vendors pages\<close>

text \<open>
  The form state \<open>Partial<Customer>\<close> and \<open>Partial<Vendor>\<close>; the two row types declare the
  same fields.
\<close>

record party_form =
  name :: "string option"
  email :: "string option"
  phone :: "string option"
  address :: "string option"
  balance :: "js_number option"

definition customers_validateForm :: "party_form \<Rightarrow> bool \<times> toast list" where
  "customers_validateForm formData =
     (if falsy_str (map_option trim (party_form.name formData)) then
        (False, [Toast_error ''Validation Error'' ''Customer name is required.''])
      else if (case party_form.email formData of None \<Rightarrow> False
               | Some e \<Rightarrow> e \<noteq> [] \<and> \<not> email_regex_test e) then
        (False, [Toast_error ''Validation Error'' ''Please enter a valid email address.''])
      else if \<not> falsy_num (party_form.balance formData) \<and>
              js_lt (Number (party_form.balance formData)) (Num 0) then
        (False, [Toast_error ''Validation Error'' ''Balance cannot be negative.''])
      else (True, []))"

definition vendors_validateForm :: "party_form \<Rightarrow> bool \<times> toast list" where
  "vendors_validateForm formData =
     (if falsy_str (map_option trim (party_form.name formData)) then
        (False, [Toast_error ''Validation Error'' ''Vendor name is required.''])
      else if (case party_form.email formData of None \<Rightarrow> False
               | Some e \<Rightarrow> e \<noteq> [] \<and> \<not> email_regex_test e) then
        (False, [Toast_error ''Validation Error'' ''Please enter a valid email address.''])
      else if \<not> falsy_num (party_form.balance formData) \<and>
              js_lt (Number (party_form.balance formData)) (Num 0) then
        (False, [Toast_error ''Validation Error'' ''Balance cannot be negative.''])
      else (True, []))"

section \<open>Purchases page\<close>

subsection \<open>Dates\<close>

text \<open>
  A \<open>Date\<close> holds a time value, the milliseconds since 1 January 1970 UTC, or is invalid
  (\<open>None\<close>). The functions below are those of the ECMAScript specification with the same
  names. The day number of a civil date and its inverse are computed on the cycle of 400
  years that starts on 1 March; months count from 0 as in \<open>getMonth\<close>.
\<close>

definition msPerDay :: int where
  "msPerDay = 86400000"

definition Day :: "int \<Rightarrow> int" where
  "Day t = t div msPerDay"

definition TimeWithinDay :: "int \<Rightarrow> int" where
  "TimeWithinDay t = t mod msPerDay"

definition days_from_civil :: "int \<Rightarrow> int \<Rightarrow> int \<Rightarrow> int" where
  "days_from_civil y m d =
     (let y1 = (if m < 2 then y - 1 else y);
          era = y1 div 400;
          yoe = y1 - era * 400;
          mp = (if m < 2 then m + 10 else m - 2);
          doy = (153 * mp + 2) div 5 + d - 1;
          doe = yoe * 365 + yoe div 4 - yoe div 100 + doy
      in era * 146097 + doe - 719468)"

definition civil_from_days :: "int \<Rightarrow> int \<times> int \<times> int" where
  "civil_from_days z =
     (let z1 = z + 719468;
          era = z1 div 146097;
          doe = z1 - era * 146097;
          yoe = (doe - doe div 1460 + doe div 36524 - doe div 146096) div 365;
          doy = doe - (365 * yoe + yoe div 4 - yoe div 100);
          mp = (5 * doy + 2) div 153;
          d = doy - (153 * mp + 2) div 5 + 1;
          m = (if mp < 10 then mp + 2 else mp - 10);
          y = yoe + era * 400 + (if m < 2 then 1 else 0)
      in (y, m, d))"

definition YearFromTime :: "int \<Rightarrow> int" where
  "YearFromTime t = (case civil_from_days (Day t) of (y, m, d) \<Rightarrow> y)"

definition MonthFromTime :: "int \<Rightarrow> int" where
  "MonthFromTime t = (case civil_from_days (Day t) of (y, m, d) \<Rightarrow> m)"

definition DateFromTime :: "int \<Rightarrow> int" where
  "DateFromTime t = (case civil_from_days (Day t) of (y, m, d) \<Rightarrow> d)"

definition MakeDay :: "int \<Rightarrow> int \<Rightarrow> int \<Rightarrow> int" where
  "MakeDay year month date =
     days_from_civil (year + month div 12) (month mod 12) 1 + date - 1"

definition MakeDate :: "int \<Rightarrow> int \<Rightarrow> int" where
  "MakeDate day time = day * msPerDay + time"

definition TimeClip :: "int \<Rightarrow> int option" where
  "TimeClip t = (if 8640000000000000 < \<bar>t\<bar> then None else Some t)"

text \<open>
  What the host decides. The offset of the local time zone from UTC in milliseconds is
  given twice, as ECMAScript's \<open>LocalTZA\<close> is: for an instant (\<open>offset_at_utc\<close>) and for a
  local time (\<open>offset_at_local\<close>); in a zone with daylight saving they change during the
  year. \<open>parse_other\<close> is what \<open>new Date(s)\<close> makes of a string that is not a calendar date
  of the form \<open>YYYY-MM-DD\<close> (a time stamp, a day the month does not have, any other
  text), which depends on the implementation.
\<close>

record host =
  offset_at_utc :: "int \<Rightarrow> int"
  offset_at_local :: "int \<Rightarrow> int"
  parse_other :: "string \<Rightarrow> int option"

definition LocalTime :: "host \<Rightarrow> int \<Rightarrow> int" where
  "LocalTime h t = t + offset_at_utc h t"

definition UTC :: "host \<Rightarrow> int \<Rightarrow> int" where
  "UTC h t = t - offset_at_local h t"

definition getMonth :: "host \<Rightarrow> int \<Rightarrow> int" where
  "getMonth h t = MonthFromTime (LocalTime h t)"

definition getDate :: "host \<Rightarrow> int \<Rightarrow> int" where
  "getDate h t = DateFromTime (LocalTime h t)"

definition setMonth :: "host \<Rightarrow> int \<Rightarrow> int \<Rightarrow> int option" where
  "setMonth h t month =
     (let lt = LocalTime h t;
          newDate = MakeDate (MakeDay (YearFromTime lt) month (DateFromTime lt)) (TimeWithinDay lt)
      in TimeClip (UTC h newDate))"

definition setDate :: "host \<Rightarrow> int \<Rightarrow> int \<Rightarrow> int option" where
  "setDate h t date =
     (let lt = LocalTime h t;
          newDate = MakeDate (MakeDay (YearFromTime lt) (MonthFromTime lt) date) (TimeWithinDay lt)
      in TimeClip (UTC h newDate))"

text \<open>
  \<open>toDateString\<close> prints the weekday, the month, the day and the year of the local date;
  two of its results are equal exactly when year, month and day are. The result is kept as
  these three numbers, \<open>None\<close> being the string of an invalid date.
\<close>

definition toDateString :: "host \<Rightarrow> int option \<Rightarrow> (int \<times> int \<times> int) option" where
  "toDateString h d =
     (case d of None \<Rightarrow> None | Some t \<Rightarrow> Some (civil_from_days (Day (LocalTime h t))))"

text \<open>
  The time value of \<open>new Date(s)\<close>. A calendar date \<open>YYYY-MM-DD\<close>, the value of a date input,
  is midnight UTC of that day; every other string is read by the host, \<open>None\<close> being an
  invalid date.
\<close>

definition is_digit :: "char \<Rightarrow> bool" where
  "is_digit c = (48 \<le> (of_char c :: nat) \<and> (of_char c :: nat) \<le> 57)"

definition digits_val :: "string \<Rightarrow> int" where
  "digits_val s = foldl (\<lambda>a c. 10 * a + (int (of_char c) - 48)) 0 s"

definition DaysInMonth :: "int \<Rightarrow> int \<Rightarrow> int" where
  "DaysInMonth y m = MakeDay y (m + 1) 1 - MakeDay y m 1"

definition Date_parse :: "host \<Rightarrow> string \<Rightarrow> int option" where
  "Date_parse h s =
     (if length s = 10 \<and> list_all is_digit (take 4 s) \<and> s ! 4 = CHR ''-'' \<and>
         list_all is_digit (take 2 (drop 5 s)) \<and> s ! 7 = CHR ''-'' \<and>
         list_all is_digit (drop 8 s) \<and>
         1 \<le> digits_val (take 2 (drop 5 s)) \<and> digits_val (take 2 (drop 5 s)) \<le> 12 \<and>
         1 \<le> digits_val (drop 8 s) \<and>
         digits_val (drop 8 s)
           \<le> DaysInMonth (digits_val (take 4 s)) (digits_val (take 2 (drop 5 s)) - 1)
      then
        Some (MakeDate
          (MakeDay (digits_val (take 4 s)) (digits_val (take 2 (drop 5 s)) - 1)
             (digits_val (drop 8 s))) 0)
      else parse_other h s)"

text \<open>\<open>a >= b\<close> on two dates compares their time values; an invalid date compares false.\<close>

definition date_ge :: "int option \<Rightarrow> int option \<Rightarrow> bool" where
  "date_ge a b = (case a of None \<Rightarrow> False | Some x \<Rightarrow> (case b of None \<Rightarrow> False | Some y \<Rightarrow> y \<le> x))"

subsection \<open>Rows, filter and validation\<close>

text \<open>The row type of \<open>purchases\<close> is not declared in \<open>types.ts\<close>.\<close>

record purchase =
  id' :: string
  user_id :: string
  vendor_id :: "string option"
  vendor_name :: string
  purchase_date :: string
  subtotal :: js_number
  tax :: js_number
  total :: js_number
  status :: string
  created_at :: string

record purchase_form =
  vendor_id :: "string option"
  vendor_name :: "string option"
  purchase_date :: "string option"
  subtotal :: "js_number option"
  tax :: "js_number option"
  total :: "js_number option"
  status :: "string option"

text \<open>
  The effect that computes \<open>filteredPurchases\<close>, one definition for each step; \<open>now\<close> is the
  time value of \<open>new Date()\<close>.
\<close>

definition purchases_search :: "string \<Rightarrow> purchase list \<Rightarrow> purchase list" where
  "purchases_search searchTerm filtered =
     (if trim searchTerm \<noteq> [] then
        filter (\<lambda>p. js_includes (toLowerCase (purchase.vendor_name p)) (toLowerCase searchTerm) \<or>
                    js_includes (toLowerCase (purchase.id' p)) (toLowerCase searchTerm))
          filtered
      else filtered)"

definition purchases_status :: "string \<Rightarrow> purchase list \<Rightarrow> purchase list" where
  "purchases_status statusFilter filtered =
     (if statusFilter \<noteq> ''all'' then
        filter (\<lambda>p. purchase.status p = statusFilter) filtered
      else filtered)"

definition purchases_date :: "host \<Rightarrow> int \<Rightarrow> string \<Rightarrow> purchase list \<Rightarrow> purchase list" where
  "purchases_date h now dateFilter filtered =
     (if dateFilter \<noteq> ''all'' then
        (if dateFilter = ''today'' then
           filter (\<lambda>p. toDateString h (Date_parse h (purchase.purchase_date p)) =
                       toDateString h (Some now)) filtered
         else if dateFilter = ''week'' then
           filter (\<lambda>p. date_ge (Date_parse h (purchase.purchase_date p))
                         (setDate h now (getDate h now - 7))) filtered
         else if dateFilter = ''month'' then
           filter (\<lambda>p. date_ge (Date_parse h (purchase.purchase_date p))
                         (setMonth h now (getMonth h now - 1))) filtered
         else filtered)
      else filtered)"

definition filteredPurchases ::
  "host \<Rightarrow> int \<Rightarrow> purchase list \<Rightarrow> string \<Rightarrow> string \<Rightarrow> string \<Rightarrow> purchase list" where
  "filteredPurchases h now purchases searchTerm statusFilter dateFilter =
     purchases_date h now dateFilter
       (purchases_status statusFilter (purchases_search searchTerm purchases))"

definition purchases_validateForm :: "purchase_form \<Rightarrow> bool \<times> toast list" where
  "purchases_validateForm formData =
     (if falsy_str (map_option trim (purchase_form.vendor_name formData)) then
        (False, [Toast_error ''Validation Error'' ''Vendor name is required.''])
      else if falsy_num (purchase_form.subtotal formData) \<or>
              js_le (Number (purchase_form.subtotal formData)) (Num 0) then
        (False, [Toast_error ''Validation Error'' ''Subtotal must be greater than zero.''])
      else if purchase_form.tax formData \<noteq> None \<and>
              js_lt (Number (purchase_form.tax formData)) (Num 0) then
        (False, [Toast_error ''Validation Error'' ''Tax cannot be negative.''])
      else (True, []))"

section \<open>Ledger page\<close>

text \<open>
  The row type of \<open>ledger_entries\<close> is not declared in \<open>types.ts\<close>; the fields are those the
  page reads and writes. \<open>party\<close> is the row type of \<open>customers\<close> and of \<open>vendors\<close>, which
  declare the same fields.
\<close>

record party =
  id' :: string
  user_id :: string
  name :: string
  email :: "string option"
  phone :: "string option"
  address :: "string option"
  balance :: js_number
  created_at :: string
  updated_at :: string

record ledger_entry =
  id' :: string
  user_id :: string
  entity_type :: string
  entity_id :: "string option"
  entity_name :: string
  transaction_type :: string
  amount :: js_number
  description :: "string option"
  reference_id :: "string option"
  reference_type :: "string option"
  created_at :: string

record ledger_form =
  entity_type :: "string option"
  entity_id :: "string option"
  entity_name :: "string option"
  transaction_type :: "string option"
  amount :: "js_number option"
  description :: "string option"
  reference_id :: "string option"
  reference_type :: "string option"

record ledger_stats =
  totalDebits :: js_number
  totalCredits :: js_number
  netBalance :: js_number

definition ledger_calculateStats :: "ledger_entry list \<Rightarrow> ledger_stats" where
  "ledger_calculateStats ledgerEntries =
     (let d = foldl (\<lambda>sum entry. js_add sum (ledger_entry.amount entry)) (Num 0)
                (filter (\<lambda>entry. ledger_entry.transaction_type entry = ''debit'') ledgerEntries);
          c = foldl (\<lambda>sum entry. js_add sum (ledger_entry.amount entry)) (Num 0)
                (filter (\<lambda>entry. ledger_entry.transaction_type entry = ''credit'') ledgerEntries);
          b = js_sub c d
      in \<lparr>totalDebits = d, totalCredits = c, netBalance = b\<rparr>)"

text \<open>The effect that computes \<open>filteredLedgerEntries\<close>, one definition for each step.\<close>

definition ledger_search :: "string \<Rightarrow> ledger_entry list \<Rightarrow> ledger_entry list" where
  "ledger_search searchTerm filtered =
     (if trim searchTerm \<noteq> [] then
        filter (\<lambda>entry.
            js_includes (toLowerCase (ledger_entry.entity_name entry)) (toLowerCase searchTerm) \<or>
            (case ledger_entry.description entry of None \<Rightarrow> False
             | Some d \<Rightarrow> js_includes (toLowerCase d) (toLowerCase searchTerm)) \<or>
            js_includes (toLowerCase (ledger_entry.id' entry)) (toLowerCase searchTerm))
          filtered
      else filtered)"

definition ledger_entityType :: "string \<Rightarrow> ledger_entry list \<Rightarrow> ledger_entry list" where
  "ledger_entityType entityTypeFilter filtered =
     (if entityTypeFilter \<noteq> ''all'' then
        filter (\<lambda>entry. ledger_entry.entity_type entry = entityTypeFilter) filtered
      else filtered)"

definition ledger_transactionType :: "string \<Rightarrow> ledger_entry list \<Rightarrow> ledger_entry list" where
  "ledger_transactionType transactionTypeFilter filtered =
     (if transactionTypeFilter \<noteq> ''all'' then
        filter (\<lambda>entry. ledger_entry.transaction_type entry = transactionTypeFilter) filtered
      else filtered)"

definition filteredLedgerEntries ::
  "ledger_entry list \<Rightarrow> string \<Rightarrow> string \<Rightarrow> string \<Rightarrow> ledger_entry list" where
  "filteredLedgerEntries ledgerEntries searchTerm entityTypeFilter transactionTypeFilter =
     ledger_transactionType transactionTypeFilter
       (ledger_entityType entityTypeFilter (ledger_search searchTerm ledgerEntries))"

definition ledger_validateForm :: "ledger_form \<Rightarrow> bool \<times> toast list" where
  "ledger_validateForm formData =
     (if falsy_str (ledger_form.entity_type formData) then
        (False, [Toast_error ''Validation Error'' ''Entity type is required.''])
      else if falsy_str (ledger_form.entity_id formData) \<and>
              falsy_str (map_option trim (ledger_form.entity_name formData)) then
        (False, [Toast_error ''Validation Error'' ''Entity selection or name is required.''])
      else if falsy_str (ledger_form.transaction_type formData) then
        (False, [Toast_error ''Validation Error'' ''Transaction type is required.''])
      else if falsy_num (ledger_form.amount formData) \<or>
              js_le (Number (ledger_form.amount formData)) (Num 0) then
        (False, [Toast_error ''Validation Error'' ''Amount must be greater than zero.''])
      else (True, []))"

section \<open>The pages and the persistence collaborator\<close>

text \<open>
  The answers of the persistence collaborator are arguments of the handlers: the result of
  \<open>supabase.auth.getUser()\<close> (the user's id and the error) and the result of a query (the
  rows and the message of the error).
\<close>

record auth_response =
  user :: "string option"
  authError :: "string option"

record 'a query_response =
  data :: "'a option"
  error :: "string option"

text \<open>
  A call to the collaborator: the table, the object written, and for an update or a deletion
  the conditions of the \<open>eq\<close> calls, each a column and a value.
\<close>

datatype 'd db_call =
    Auth_getUser
  | Select string
  | Insert string 'd
  | Update string 'd "(string \<times> string) list"
  | Delete string "(string \<times> string) list"

text \<open>
  The state every page has: the form, the id of the record that is being edited and the
  \<open>loading\<close> flag, then what the handlers have sent: the notifications, the redirections
  and the calls to the collaborator. Each page adds the lists of records it holds.
\<close>

record ('f, 'd) page =
  formData :: 'f
  editingId :: "string option"
  loading :: bool
  toasts :: "toast list"
  pushed :: "string list"
  calls :: "'d db_call list"

definition send_toast :: "toast \<Rightarrow> ('f, 'd, 'z) page_scheme \<Rightarrow> ('f, 'd, 'z) page_scheme" where
  "send_toast t s = s\<lparr>toasts := toasts s @ [t]\<rparr>"

definition issue :: "'d db_call \<Rightarrow> ('f, 'd, 'z) page_scheme \<Rightarrow> ('f, 'd, 'z) page_scheme" where
  "issue c s = s\<lparr>calls := calls s @ [c]\<rparr>"

definition router_push :: "string \<Rightarrow> ('f, 'd, 'z) page_scheme \<Rightarrow> ('f, 'd, 'z) page_scheme" where
  "router_push path s = s\<lparr>pushed := pushed s @ [path]\<rparr>"

text \<open>\<open>authError || !user\<close>.\<close>

definition auth_failed :: "auth_response \<Rightarrow> bool" where
  "auth_failed a = (authError a \<noteq> None \<or> user a = None)"

text \<open>A string in a template literal; \<open>undefined\<close> prints as its name.\<close>

definition template :: "string option \<Rightarrow> string" where
  "template x = (case x of None \<Rightarrow> ''undefined'' | Some s \<Rightarrow> s)"

text \<open>
  The handlers of the seven pages follow. A fetch of the page's own list sets \<open>loading\<close>,
  asks for the user and sends the query; the fetches that fill a selection list do the same
  without \<open>loading\<close> and without a notification. \<open>handleSubmit\<close> branches on the truthiness
  of \<open>editingId\<close>: \<open>null\<close> and the empty string create. After a successful write
  \<open>handleSubmit\<close> and \<open>handleDelete\<close> start the fetch of the list without awaiting it; the
  state is the one reached when that fetch has settled, with the second pair of answers.
  \<open>confirmed\<close> is the answer of the \<open>confirm\<close> dialog.
\<close>

subsection \<open>Products page\<close>

text \<open>The object \<open>productData\<close> that \<open>handleSubmit\<close> writes.\<close>

record product_data =
  user_id :: string
  name :: string
  category :: string
  quantity :: js_number
  price :: js_number
  min_stock :: js_number

record products_page = "(product_form, product_data) page" +
  products :: "product list"

definition products_productData :: "string \<Rightarrow> product_form \<Rightarrow> product_data" where
  "products_productData uid f =
     \<lparr>product_data.user_id = uid,
      product_data.name = str_or (map_option trim (product_form.name f)) [],
      product_data.category = str_or (map_option trim (product_form.category f)) [],
      product_data.quantity = number_or (product_form.quantity f) (Num 0),
      product_data.price = number_or (product_form.price f) (Num 0),
      product_data.min_stock = number_or (product_form.min_stock f) (Num 0)\<rparr>"

definition products_fetchProducts ::
  "auth_response \<Rightarrow> product list query_response \<Rightarrow> products_page
     \<Rightarrow> products_page" where
  "products_fetchProducts auth res s0 =
     (let s = issue Auth_getUser (s0\<lparr>loading := True\<rparr>) in
      if auth_failed auth then
        (router_push ''/login''
           (send_toast (Toast_error ''Authentication Error''
              ''Please log in to view products.'') s))\<lparr>loading := False\<rparr>
      else
        let s = issue (Select ''products'') s in
        (case error res of
           Some message \<Rightarrow> send_toast (Toast_error ''Failed to Fetch Products'' message) s
         | None \<Rightarrow>
             s\<lparr>products_page.products := (case data res of None \<Rightarrow> [] | Some rows \<Rightarrow> rows)\<rparr>)
        \<lparr>loading := False\<rparr>)"

definition products_resetForm :: "products_page \<Rightarrow> products_page" where
  "products_resetForm s =
     s\<lparr>formData :=
         \<lparr>product_form.name = Some [], product_form.category = Some [],
          product_form.quantity = Some (Num 0), product_form.price = Some (Num 0),
          product_form.min_stock = Some (Num 0)\<rparr>,
       editingId := None\<rparr>"

definition products_handleSubmit ::
  "auth_response \<Rightarrow> string option \<Rightarrow> auth_response \<Rightarrow> product list query_response
     \<Rightarrow> products_page \<Rightarrow> products_page" where
  "products_handleSubmit auth write_error auth2 res2 s0 =
     (if \<not> fst (products_validateForm (formData s0)) then
        s0\<lparr>toasts := toasts s0 @ snd (products_validateForm (formData s0))\<rparr>
      else
        let s = issue Auth_getUser (s0\<lparr>loading := True\<rparr>) in
        if auth_failed auth then
          (send_toast (Toast_error ''Authentication Error''
             ''Please log in to perform this action.'') s)\<lparr>loading := False\<rparr>
        else
          let uid = (case user auth of None \<Rightarrow> [] | Some u \<Rightarrow> u);
              productData = products_productData uid (formData s) in
          (case str_or_null (editingId s) of
             Some eid \<Rightarrow>
               (let s = issue (Update ''products'' productData [(''id'', eid), (''user_id'', uid)]) s in
                case write_error of
                  Some message \<Rightarrow>
                    send_toast (Toast_error ''Failed to Update Product'' message) s
                | None \<Rightarrow>
                    products_fetchProducts auth2 res2
                      (products_resetForm (send_toast (Toast_success ''Product Updated''
                         (template (product_form.name (formData s)) @
                          '' has been successfully updated.'')) s)))
           | None \<Rightarrow>
               (let s = issue (Insert ''products'' productData) s in
                case write_error of
                  Some message \<Rightarrow>
                    send_toast (Toast_error ''Failed to Create Product'' message) s
                | None \<Rightarrow>
                    products_fetchProducts auth2 res2
                      (products_resetForm (send_toast (Toast_success ''Product Created''
                         (template (product_form.name (formData s)) @
                          '' has been successfully created.'')) s))))
          \<lparr>loading := False\<rparr>)"

definition products_handleDelete ::
  "string \<Rightarrow> bool \<Rightarrow> auth_response \<Rightarrow> string option \<Rightarrow> auth_response
     \<Rightarrow> product list query_response \<Rightarrow> products_page \<Rightarrow> products_page" where
  "products_handleDelete i confirmed auth delete_error auth2 res2 s0 =
     (let product = find (\<lambda>r. product.id' r = i) (products_page.products s0) in
      if \<not> confirmed then s0
      else
        let s = issue Auth_getUser (s0\<lparr>loading := True\<rparr>) in
        if auth_failed auth then
          (send_toast (Toast_error ''Authentication Error''
             ''Please log in to perform this action.'') s)\<lparr>loading := False\<rparr>
        else
          let uid = (case user auth of None \<Rightarrow> [] | Some u \<Rightarrow> u);
              s = issue (Delete ''products'' [(''id'', i), (''user_id'', uid)]) s in
          (case delete_error of
             Some message \<Rightarrow>
               send_toast (Toast_error ''Failed to Delete Product'' message) s
           | None \<Rightarrow>
               products_fetchProducts auth2 res2
                 (send_toast (Toast_success ''Product Deleted''
                    (str_or (map_option product.name product) ''Product'' @
                     '' has been successfully deleted.'')) s))
          \<lparr>loading := False\<rparr>)"

subsection \<open>Sale items page\<close>

text \<open>
  The row type of \<open>sales\<close> is not declared in \<open>types.ts\<close>; the fields are those the page
  reads.
\<close>

record sale =
  id' :: string
  customer_name :: string
  sale_date :: string

text \<open>The object \<open>itemData\<close> that \<open>handleSubmit\<close> writes; it has no \<open>user_id\<close>.\<close>

record sale_item_data =
  sale_id :: "string option"
  product_id :: "string option"
  product_name :: string
  quantity :: js_number
  price :: js_number
  total :: js_number

record saleItems_page = "(sale_item_form, sale_item_data) page" +
  saleItems :: "sale_item list"
  sales :: "sale list"
  products :: "product list"

definition saleItems_itemData :: "sale_item_form \<Rightarrow> sale_item_data" where
  "saleItems_itemData f =
     \<lparr>sale_item_data.sale_id = sale_item_form.sale_id f,
      sale_item_data.product_id = str_or_null (sale_item_form.product_id f),
      sale_item_data.product_name = str_or (map_option trim (sale_item_form.product_name f)) [],
      sale_item_data.quantity = number_or (sale_item_form.quantity f) (Num 1),
      sale_item_data.price = number_or (sale_item_form.price f) (Num 0),
      sale_item_data.total = number_or (sale_item_form.total f) (Num 0)\<rparr>"

definition saleItems_fetchSaleItems ::
  "auth_response \<Rightarrow> sale_item list query_response \<Rightarrow> saleItems_page
     \<Rightarrow> saleItems_page" where
  "saleItems_fetchSaleItems auth res s0 =
     (let s = issue Auth_getUser (s0\<lparr>loading := True\<rparr>) in
      if auth_failed auth then
        (router_push ''/login''
           (send_toast (Toast_error ''Authentication Error''
              ''Please log in to view sale items.'') s))\<lparr>loading := False\<rparr>
      else
        let s = issue (Select ''sale_items'') s in
        (case error res of
           Some message \<Rightarrow> send_toast (Toast_error ''Failed to Fetch Sale Items'' message) s
         | None \<Rightarrow>
             s\<lparr>saleItems_page.saleItems := (case data res of None \<Rightarrow> [] | Some rows \<Rightarrow> rows)\<rparr>)
        \<lparr>loading := False\<rparr>)"

definition saleItems_fetchSales ::
  "auth_response \<Rightarrow> sale list query_response \<Rightarrow> saleItems_page
     \<Rightarrow> saleItems_page" where
  "saleItems_fetchSales auth res s0 =
     (let s = issue Auth_getUser s0 in
      if auth_failed auth then s
      else
        let s = issue (Select ''sales'') s in
        (case error res of
           Some message \<Rightarrow> s
         | None \<Rightarrow>
             s\<lparr>saleItems_page.sales := (case data res of None \<Rightarrow> [] | Some rows \<Rightarrow> rows)\<rparr>))"

definition saleItems_fetchProducts ::
  "auth_response \<Rightarrow> product list query_response \<Rightarrow> saleItems_page
     \<Rightarrow> saleItems_page" where
  "saleItems_fetchProducts auth res s0 =
     (let s = issue Auth_getUser s0 in
      if auth_failed auth then s
      else
        let s = issue (Select ''products'') s in
        (case error res of
           Some message \<Rightarrow> s
         | None \<Rightarrow>
             s\<lparr>saleItems_page.products := (case data res of None \<Rightarrow> [] | Some rows \<Rightarrow> rows)\<rparr>))"

definition saleItems_resetForm :: "saleItems_page \<Rightarrow> saleItems_page" where
  "saleItems_resetForm s =
     s\<lparr>formData :=
         \<lparr>sale_item_form.sale_id = Some [], sale_item_form.product_id = Some [],
          sale_item_form.product_name = Some [], sale_item_form.quantity = Some (Num 1),
          sale_item_form.price = Some (Num 0), sale_item_form.total = Some (Num 0)\<rparr>,
       editingId := None\<rparr>"

definition saleItems_handleSubmit ::
  "auth_response \<Rightarrow> string option \<Rightarrow> auth_response \<Rightarrow> sale_item list query_response
     \<Rightarrow> saleItems_page \<Rightarrow> saleItems_page" where
  "saleItems_handleSubmit auth write_error auth2 res2 s0 =
     (if \<not> fst (saleItems_validateForm (formData s0)) then
        s0\<lparr>toasts := toasts s0 @ snd (saleItems_validateForm (formData s0))\<rparr>
      else
        let s = issue Auth_getUser (s0\<lparr>loading := True\<rparr>) in
        if auth_failed auth then
          (send_toast (Toast_error ''Authentication Error''
             ''Please log in to perform this action.'') s)\<lparr>loading := False\<rparr>
        else
          let itemData = saleItems_itemData (formData s) in
          (case str_or_null (editingId s) of
             Some eid \<Rightarrow>
               (let s = issue (Update ''sale_items'' itemData [(''id'', eid)]) s in
                case write_error of
                  Some message \<Rightarrow>
                    send_toast (Toast_error ''Failed to Update Sale Item'' message) s
                | None \<Rightarrow>
                    saleItems_fetchSaleItems auth2 res2
                      (saleItems_resetForm (send_toast (Toast_success ''Sale Item Updated''
                         (''Sale item '' @ template (sale_item_form.product_name (formData s)) @
                          '' has been successfully updated.'')) s)))
           | None \<Rightarrow>
               (let s = issue (Insert ''sale_items'' itemData) s in
                case write_error of
                  Some message \<Rightarrow>
                    send_toast (Toast_error ''Failed to Create Sale Item'' message) s
                | None \<Rightarrow>
                    saleItems_fetchSaleItems auth2 res2
                      (saleItems_resetForm (send_toast (Toast_success ''Sale Item Created''
                         (''Sale item '' @ template (sale_item_form.product_name (formData s)) @
                          '' has been successfully created.'')) s))))
          \<lparr>loading := False\<rparr>)"

definition saleItems_handleDelete ::
  "string \<Rightarrow> bool \<Rightarrow> auth_response \<Rightarrow> string option \<Rightarrow> auth_response
     \<Rightarrow> sale_item list query_response \<Rightarrow> saleItems_page \<Rightarrow> saleItems_page" where
  "saleItems_handleDelete i confirmed auth delete_error auth2 res2 s0 =
     (let item = find (\<lambda>r. sale_item.id' r = i) (saleItems_page.saleItems s0) in
      if \<not> confirmed then s0
      else
        let s = issue Auth_getUser (s0\<lparr>loading := True\<rparr>) in
        if auth_failed auth then
          (send_toast (Toast_error ''Authentication Error''
             ''Please log in to perform this action.'') s)\<lparr>loading := False\<rparr>
        else
          let s = issue (Delete ''sale_items'' [(''id'', i)]) s in
          (case delete_error of
             Some message \<Rightarrow>
               send_toast (Toast_error ''Failed to Delete Sale Item'' message) s
           | None \<Rightarrow>
               saleItems_fetchSaleItems auth2 res2
                 (send_toast (Toast_success ''Sale Item Deleted''
                    (''Sale item '' @
                     str_or (map_option sale_item.product_name item) ''item'' @
                     '' has been successfully deleted.'')) s))
          \<lparr>loading := False\<rparr>)"

subsection \<open>Purchase items page\<close>

text \<open>The object \<open>itemData\<close> that \<open>handleSubmit\<close> writes; it has no \<open>user_id\<close>.\<close>

record purchase_item_data =
  purchase_id :: "string option"
  product_id :: "string option"
  product_name :: string
  quantity :: js_number
  price :: js_number
  total :: js_number

record purchaseItems_page = "(purchase_item_form, purchase_item_data) page" +
  purchaseItems :: "purchase_item list"
  purchases :: "purchase list"
  products :: "product list"

definition purchaseItems_itemData :: "purchase_item_form \<Rightarrow> purchase_item_data" where
  "purchaseItems_itemData f =
     \<lparr>purchase_item_data.purchase_id = purchase_item_form.purchase_id f,
      purchase_item_data.product_id = str_or_null (purchase_item_form.product_id f),
      purchase_item_data.product_name = str_or (map_option trim (purchase_item_form.product_name f)) [],
      purchase_item_data.quantity = number_or (purchase_item_form.quantity f) (Num 1),
      purchase_item_data.price = number_or (purchase_item_form.price f) (Num 0),
      purchase_item_data.total = number_or (purchase_item_form.total f) (Num 0)\<rparr>"

definition purchaseItems_fetchPurchaseItems ::
  "auth_response \<Rightarrow> purchase_item list query_response \<Rightarrow> purchaseItems_page
     \<Rightarrow> purchaseItems_page" where
  "purchaseItems_fetchPurchaseItems auth res s0 =
     (let s = issue Auth_getUser (s0\<lparr>loading := True\<rparr>) in
      if auth_failed auth then
        (router_push ''/login''
           (send_toast (Toast_error ''Authentication Error''
              ''Please log in to view purchase items.'') s))\<lparr>loading := False\<rparr>
      else
        let s = issue (Select ''purchase_items'') s in
        (case error res of
           Some message \<Rightarrow> send_toast (Toast_error ''Failed to Fetch Purchase Items'' message) s
         | None \<Rightarrow>
             s\<lparr>purchaseItems_page.purchaseItems := (case data res of None \<Rightarrow> [] | Some rows \<Rightarrow> rows)\<rparr>)
        \<lparr>loading := False\<rparr>)"

definition purchaseItems_fetchPurchases ::
  "auth_response \<Rightarrow> purchase list query_response \<Rightarrow> purchaseItems_page
     \<Rightarrow> purchaseItems_page" where
  "purchaseItems_fetchPurchases auth res s0 =
     (let s = issue Auth_getUser s0 in
      if auth_failed auth then s
      else
        let s = issue (Select ''purchases'') s in
        (case error res of
           Some message \<Rightarrow> s
         | None \<Rightarrow>
             s\<lparr>purchaseItems_page.purchases := (case data res of None \<Rightarrow> [] | Some rows \<Rightarrow> rows)\<rparr>))"

definition purchaseItems_fetchProducts ::
  "auth_response \<Rightarrow> product list query_response \<Rightarrow> purchaseItems_page
     \<Rightarrow> purchaseItems_page" where
  "purchaseItems_fetchProducts auth res s0 =
     (let s = issue Auth_getUser s0 in
      if auth_failed auth then s
      else
        let s = issue (Select ''products'') s in
        (case error res of
           Some message \<Rightarrow> s
         | None \<Rightarrow>
             s\<lparr>purchaseItems_page.products := (case data res of None \<Rightarrow> [] | Some rows \<Rightarrow> rows)\<rparr>))"

definition purchaseItems_resetForm :: "purchaseItems_page \<Rightarrow> purchaseItems_page" where
  "purchaseItems_resetForm s =
     s\<lparr>formData :=
         \<lparr>purchase_item_form.purchase_id = Some [], purchase_item_form.product_id = Some [],
          purchase_item_form.product_name = Some [], purchase_item_form.quantity = Some (Num 1),
          purchase_item_form.price = Some (Num 0), purchase_item_form.total = Some (Num 0)\<rparr>,
       editingId := None\<rparr>"

definition purchaseItems_handleSubmit ::
  "auth_response \<Rightarrow> string option \<Rightarrow> auth_response \<Rightarrow> purchase_item list query_response
     \<Rightarrow> purchaseItems_page \<Rightarrow> purchaseItems_page" where
  "purchaseItems_handleSubmit auth write_error auth2 res2 s0 =
     (if \<not> fst (purchaseItems_validateForm (formData s0)) then
        s0\<lparr>toasts := toasts s0 @ snd (purchaseItems_validateForm (formData s0))\<rparr>
      else
        let s = issue Auth_getUser (s0\<lparr>loading := True\<rparr>) in
        if auth_failed auth then
          (send_toast (Toast_error ''Authentication Error''
             ''Please log in to perform this action.'') s)\<lparr>loading := False\<rparr>
        else
          let itemData = purchaseItems_itemData (formData s) in
          (case str_or_null (editingId s) of
             Some eid \<Rightarrow>
               (let s = issue (Update ''purchase_items'' itemData [(''id'', eid)]) s in
                case write_error of
                  Some message \<Rightarrow>
                    send_toast (Toast_error ''Failed to Update Purchase Item'' message) s
                | None \<Rightarrow>
                    purchaseItems_fetchPurchaseItems auth2 res2
                      (purchaseItems_resetForm (send_toast (Toast_success ''Purchase Item Updated''
                         (''Purchase item '' @ template (purchase_item_form.product_name (formData s)) @
                          '' has been successfully updated.'')) s)))
           | None \<Rightarrow>
               (let s = issue (Insert ''purchase_items'' itemData) s in
                case write_error of
                  Some message \<Rightarrow>
                    send_toast (Toast_error ''Failed to Create Purchase Item'' message) s
                | None \<Rightarrow>
                    purchaseItems_fetchPurchaseItems auth2 res2
                      (purchaseItems_resetForm (send_toast (Toast_success ''Purchase Item Created''
                         (''Purchase item '' @ template (purchase_item_form.product_name (formData s)) @
                          '' has been successfully created.'')) s))))
          \<lparr>loading := False\<rparr>)"

definition purchaseItems_handleDelete ::
  "string \<Rightarrow> bool \<Rightarrow> auth_response \<Rightarrow> string option \<Rightarrow> auth_response
     \<Rightarrow> purchase_item list query_response \<Rightarrow> purchaseItems_page \<Rightarrow> purchaseItems_page" where
  "purchaseItems_handleDelete i confirmed auth delete_error auth2 res2 s0 =
     (let item = find (\<lambda>r. purchase_item.id' r = i) (purchaseItems_page.purchaseItems s0) in
      if \<not> confirmed then s0
      else
        let s = issue Auth_getUser (s0\<lparr>loading := True\<rparr>) in
        if auth_failed auth then
          (send_toast (Toast_error ''Authentication Error''
             ''Please log in to perform this action.'') s)\<lparr>loading := False\<rparr>
        else
          let s = issue (Delete ''purchase_items'' [(''id'', i)]) s in
          (case delete_error of
             Some message \<Rightarrow>
               send_toast (Toast_error ''Failed to Delete Purchase Item'' message) s
           | None \<Rightarrow>
               purchaseItems_fetchPurchaseItems auth2 res2
                 (send_toast (Toast_success ''Purchase Item Deleted''
                    (''Purchase item '' @
                     str_or (map_option purchase_item.product_name item) ''item'' @
                     '' has been successfully deleted.'')) s))
          \<lparr>loading := False\<rparr>)"

subsection \<open>Vendors page\<close>

text \<open>
  The object \<open>vendorData\<close> that \<open>handleSubmit\<close> writes.
\<close>

record vendor_data =
  user_id :: string
  name :: string
  email :: "string option"
  phone :: "string option"
  address :: "string option"
  balance :: js_number

record vendors_page = "(party_form, vendor_data) page" +
  vendors :: "party list"

definition vendors_vendorData :: "string \<Rightarrow> party_form \<Rightarrow> vendor_data" where
  "vendors_vendorData uid f =
     \<lparr>vendor_data.user_id = uid,
      vendor_data.name = str_or (map_option trim (party_form.name f)) [],
      vendor_data.email = str_or_null (map_option trim (party_form.email f)),
      vendor_data.phone = str_or_null (map_option trim (party_form.phone f)),
      vendor_data.address = str_or_null (map_option trim (party_form.address f)),
      vendor_data.balance = number_or (party_form.balance f) (Num 0)\<rparr>"

definition vendors_fetchVendors ::
  "auth_response \<Rightarrow> party list query_response \<Rightarrow> vendors_page
     \<Rightarrow> vendors_page" where
  "vendors_fetchVendors auth res s0 =
     (let s = issue Auth_getUser (s0\<lparr>loading := True\<rparr>) in
      if auth_failed auth then
        (router_push ''/login''
           (send_toast (Toast_error ''Authentication Error''
              ''Please log in to view vendors.'') s))\<lparr>loading := False\<rparr>
      else
        let s = issue (Select ''vendors'') s in
        (case error res of
           Some message \<Rightarrow> send_toast (Toast_error ''Failed to Fetch Vendors'' message) s
         | None \<Rightarrow>
             s\<lparr>vendors_page.vendors := (case data res of None \<Rightarrow> [] | Some rows \<Rightarrow> rows)\<rparr>)
        \<lparr>loading := False\<rparr>)"

definition vendors_resetForm :: "vendors_page \<Rightarrow> vendors_page" where
  "vendors_resetForm s =
     s\<lparr>formData :=
         \<lparr>party_form.name = Some [], party_form.email = Some [], party_form.phone = Some [],
          party_form.address = Some [], party_form.balance = Some (Num 0)\<rparr>,
       editingId := None\<rparr>"

definition vendors_handleSubmit ::
  "auth_response \<Rightarrow> string option \<Rightarrow> auth_response \<Rightarrow> party list query_response
     \<Rightarrow> vendors_page \<Rightarrow> vendors_page" where
  "vendors_handleSubmit auth write_error auth2 res2 s0 =
     (if \<not> fst (vendors_validateForm (formData s0)) then
        s0\<lparr>toasts := toasts s0 @ snd (vendors_validateForm (formData s0))\<rparr>
      else
        let s = issue Auth_getUser (s0\<lparr>loading := True\<rparr>) in
        if auth_failed auth then
          (send_toast (Toast_error ''Authentication Error''
             ''Please log in to perform this action.'') s)\<lparr>loading := False\<rparr>
        else
          let uid = (case user auth of None \<Rightarrow> [] | Some u \<Rightarrow> u);
              vendorData = vendors_vendorData uid (formData s) in
          (case str_or_null (editingId s) of
             Some eid \<Rightarrow>
               (let s = issue (Update ''vendors'' vendorData [(''id'', eid), (''user_id'', uid)]) s in
                case write_error of
                  Some message \<Rightarrow>
                    send_toast (Toast_error ''Failed to Update Vendor'' message) s
                | None \<Rightarrow>
                    vendors_fetchVendors auth2 res2
                      (vendors_resetForm (send_toast (Toast_success ''Vendor Updated''
                         (template (party_form.name (formData s)) @
                          '' has been successfully updated.'')) s)))
           | None \<Rightarrow>
               (let s = issue (Insert ''vendors'' vendorData) s in
                case write_error of
                  Some message \<Rightarrow>
                    send_toast (Toast_error ''Failed to Create Vendor'' message) s
                | None \<Rightarrow>
                    vendors_fetchVendors auth2 res2
                      (vendors_resetForm (send_toast (Toast_success ''Vendor Created''
                         (template (party_form.name (formData s)) @
                          '' has been successfully created.'')) s))))
          \<lparr>loading := False\<rparr>)"

definition vendors_handleDelete ::
  "string \<Rightarrow> bool \<Rightarrow> auth_response \<Rightarrow> string option \<Rightarrow> auth_response
     \<Rightarrow> party list query_response \<Rightarrow> vendors_page \<Rightarrow> vendors_page" where
  "vendors_handleDelete i confirmed auth delete_error auth2 res2 s0 =
     (let vendor = find (\<lambda>r. party.id' r = i) (vendors_page.vendors s0) in
      if \<not> confirmed then s0
      else
        let s = issue Auth_getUser (s0\<lparr>loading := True\<rparr>) in
        if auth_failed auth then
          (send_toast (Toast_error ''Authentication Error''
             ''Please log in to perform this action.'') s)\<lparr>loading := False\<rparr>
        else
          let uid = (case user auth of None \<Rightarrow> [] | Some u \<Rightarrow> u);
              s = issue (Delete ''vendors'' [(''id'', i), (''user_id'', uid)]) s in
          (case delete_error of
             Some message \<Rightarrow>
               send_toast (Toast_error ''Failed to Delete Vendor'' message) s
           | None \<Rightarrow>
               vendors_fetchVendors auth2 res2
                 (send_toast (Toast_success ''Vendor Deleted''
                    (str_or (map_option party.name vendor) ''Vendor'' @
                     '' has been successfully deleted.'')) s))
          \<lparr>loading := False\<rparr>)"

subsection \<open>Customers page\<close>

text \<open>
  The object \<open>customerData\<close> that \<open>handleSubmit\<close> writes; \<open>balance\<close> is the one of the
  form, taken over by \<open>...formData\<close>, and is missing after \<open>resetForm\<close>.
\<close>

record customer_data =
  user_id :: string
  name :: string
  email :: "string option"
  phone :: "string option"
  address :: "string option"
  balance :: "js_number option"

record customers_page = "(party_form, customer_data) page" +
  customers :: "party list"

definition customers_customerData :: "string \<Rightarrow> party_form \<Rightarrow> customer_data" where
  "customers_customerData uid f =
     \<lparr>customer_data.user_id = uid,
      customer_data.name = str_or (map_option trim (party_form.name f)) [],
      customer_data.email = str_or_null (map_option trim (party_form.email f)),
      customer_data.phone = str_or_null (map_option trim (party_form.phone f)),
      customer_data.address = str_or_null (map_option trim (party_form.address f)),
      customer_data.balance = party_form.balance f\<rparr>"

definition customers_fetchCustomers ::
  "auth_response \<Rightarrow> party list query_response \<Rightarrow> customers_page
     \<Rightarrow> customers_page" where
  "customers_fetchCustomers auth res s0 =
     (let s = issue Auth_getUser (s0\<lparr>loading := True\<rparr>) in
      if auth_failed auth then
        (router_push ''/login''
           (send_toast (Toast_error ''Authentication Error''
              ''Please log in to view customers.'') s))\<lparr>loading := False\<rparr>
      else
        let s = issue (Select ''customers'') s in
        (case error res of
           Some message \<Rightarrow> send_toast (Toast_error ''Failed to Fetch Customers'' message) s
         | None \<Rightarrow>
             s\<lparr>customers_page.customers := (case data res of None \<Rightarrow> [] | Some rows \<Rightarrow> rows)\<rparr>)
        \<lparr>loading := False\<rparr>)"

definition customers_resetForm :: "customers_page \<Rightarrow> customers_page" where
  "customers_resetForm s =
     s\<lparr>formData :=
         \<lparr>party_form.name = Some [], party_form.email = Some [], party_form.phone = Some [],
          party_form.address = Some [], party_form.balance = None\<rparr>,
       editingId := None\<rparr>"

definition customers_handleSubmit ::
  "auth_response \<Rightarrow> string option \<Rightarrow> auth_response \<Rightarrow> party list query_response
     \<Rightarrow> customers_page \<Rightarrow> customers_page" where
  "customers_handleSubmit auth write_error auth2 res2 s0 =
     (if \<not> fst (customers_validateForm (formData s0)) then
        s0\<lparr>toasts := toasts s0 @ snd (customers_validateForm (formData s0))\<rparr>
      else
        let s = issue Auth_getUser (s0\<lparr>loading := True\<rparr>) in
        if auth_failed auth then
          (send_toast (Toast_error ''Authentication Error''
             ''Please log in to perform this action.'') s)\<lparr>loading := False\<rparr>
        else
          let uid = (case user auth of None \<Rightarrow> [] | Some u \<Rightarrow> u);
              customerData = customers_customerData uid (formData s) in
          (case str_or_null (editingId s) of
             Some eid \<Rightarrow>
               (let s = issue (Update ''customers'' customerData [(''id'', eid), (''user_id'', uid)]) s in
                case write_error of
                  Some message \<Rightarrow>
                    send_toast (Toast_error ''Failed to Update Customer'' message) s
                | None \<Rightarrow>
                    customers_fetchCustomers auth2 res2
                      (customers_resetForm (send_toast (Toast_success ''Customer Updated''
                         (template (party_form.name (formData s)) @
                          '' has been successfully updated.'')) s)))
           | None \<Rightarrow>
               (let s = issue (Insert ''customers'' customerData) s in
                case write_error of
                  Some message \<Rightarrow>
                    send_toast (Toast_error ''Failed to Create Customer'' message) s
                | None \<Rightarrow>
                    customers_fetchCustomers auth2 res2
                      (customers_resetForm (send_toast (Toast_success ''Customer Created''
                         (template (party_form.name (formData s)) @
                          '' has been successfully created.'')) s))))
          \<lparr>loading := False\<rparr>)"

definition customers_handleDelete ::
  "string \<Rightarrow> bool \<Rightarrow> auth_response \<Rightarrow> string option \<Rightarrow> auth_response
     \<Rightarrow> party list query_response \<Rightarrow> customers_page \<Rightarrow> customers_page" where
  "customers_handleDelete i confirmed auth delete_error auth2 res2 s0 =
     (let customer = find (\<lambda>r. party.id' r = i) (customers_page.customers s0) in
      if \<not> confirmed then s0
      else
        let s = issue Auth_getUser (s0\<lparr>loading := True\<rparr>) in
        if auth_failed auth then
          (send_toast (Toast_error ''Authentication Error''
             ''Please log in to perform this action.'') s)\<lparr>loading := False\<rparr>
        else
          let uid = (case user auth of None \<Rightarrow> [] | Some u \<Rightarrow> u);
              s = issue (Delete ''customers'' [(''id'', i), (''user_id'', uid)]) s in
          (case delete_error of
             Some message \<Rightarrow>
               send_toast (Toast_error ''Failed to Delete Customer'' message) s
           | None \<Rightarrow>
               customers_fetchCustomers auth2 res2
                 (send_toast (Toast_success ''Customer Deleted''
                    (str_or (map_option party.name customer) ''Customer'' @
                     '' has been successfully deleted.'')) s))
          \<lparr>loading := False\<rparr>)"

subsection \<open>Purchases page\<close>

text \<open>The object \<open>purchaseData\<close> that \<open>handleSubmit\<close> writes.\<close>

record purchase_data =
  user_id :: string
  vendor_id :: "string option"
  vendor_name :: string
  purchase_date :: "string option"
  subtotal :: js_number
  tax :: js_number
  total :: js_number
  status :: string

record purchases_page = "(purchase_form, purchase_data) page" +
  purchases :: "purchase list"
  vendors :: "party list"

definition purchases_purchaseData :: "string \<Rightarrow> purchase_form \<Rightarrow> purchase_data" where
  "purchases_purchaseData uid f =
     \<lparr>purchase_data.user_id = uid,
      purchase_data.vendor_id = str_or_null (purchase_form.vendor_id f),
      purchase_data.vendor_name = str_or (map_option trim (purchase_form.vendor_name f)) [],
      purchase_data.purchase_date = purchase_form.purchase_date f,
      purchase_data.subtotal = number_or (purchase_form.subtotal f) (Num 0),
      purchase_data.tax = number_or (purchase_form.tax f) (Num 0),
      purchase_data.total = number_or (purchase_form.total f) (Num 0),
      purchase_data.status = str_or (purchase_form.status f) ''pending''\<rparr>"

definition purchases_fetchPurchases ::
  "auth_response \<Rightarrow> purchase list query_response \<Rightarrow> purchases_page
     \<Rightarrow> purchases_page" where
  "purchases_fetchPurchases auth res s0 =
     (let s = issue Auth_getUser (s0\<lparr>loading := True\<rparr>) in
      if auth_failed auth then
        (router_push ''/login''
           (send_toast (Toast_error ''Authentication Error''
              ''Please log in to view purchases.'') s))\<lparr>loading := False\<rparr>
      else
        let s = issue (Select ''purchases'') s in
        (case error res of
           Some message \<Rightarrow> send_toast (Toast_error ''Failed to Fetch Purchases'' message) s
         | None \<Rightarrow>
             s\<lparr>purchases_page.purchases := (case data res of None \<Rightarrow> [] | Some rows \<Rightarrow> rows)\<rparr>)
        \<lparr>loading := False\<rparr>)"

definition purchases_fetchVendors ::
  "auth_response \<Rightarrow> party list query_response \<Rightarrow> purchases_page
     \<Rightarrow> purchases_page" where
  "purchases_fetchVendors auth res s0 =
     (let s = issue Auth_getUser s0 in
      if auth_failed auth then s
      else
        let s = issue (Select ''vendors'') s in
        (case error res of
           Some message \<Rightarrow> s
         | None \<Rightarrow>
             s\<lparr>purchases_page.vendors := (case data res of None \<Rightarrow> [] | Some rows \<Rightarrow> rows)\<rparr>))"

text \<open>
  \<open>resetForm\<close>; \<open>today\<close> is the string \<open>new Date().toISOString().split('T')[0]\<close>, the
  current date in UTC.
\<close>

definition purchases_resetForm :: "string \<Rightarrow> purchases_page \<Rightarrow> purchases_page" where
  "purchases_resetForm today s =
     s\<lparr>formData :=
         \<lparr>purchase_form.vendor_id = Some [], purchase_form.vendor_name = Some [],
          purchase_form.purchase_date = Some today, purchase_form.subtotal = Some (Num 0),
          purchase_form.tax = Some (Num 0), purchase_form.total = Some (Num 0),
          purchase_form.status = Some ''pending''\<rparr>,
       editingId := None\<rparr>"

definition purchases_handleSubmit ::
  "string \<Rightarrow> auth_response \<Rightarrow> string option \<Rightarrow> auth_response \<Rightarrow> purchase list query_response
     \<Rightarrow> purchases_page \<Rightarrow> purchases_page" where
  "purchases_handleSubmit today auth write_error auth2 res2 s0 =
     (if \<not> fst (purchases_validateForm (formData s0)) then
        s0\<lparr>toasts := toasts s0 @ snd (purchases_validateForm (formData s0))\<rparr>
      else
        let s = issue Auth_getUser (s0\<lparr>loading := True\<rparr>) in
        if auth_failed auth then
          (send_toast (Toast_error ''Authentication Error''
             ''Please log in to perform this action.'') s)\<lparr>loading := False\<rparr>
        else
          let uid = (case user auth of None \<Rightarrow> [] | Some u \<Rightarrow> u);
              purchaseData = purchases_purchaseData uid (formData s) in
          (case str_or_null (editingId s) of
             Some eid \<Rightarrow>
               (let s = issue (Update ''purchases'' purchaseData [(''id'', eid), (''user_id'', uid)]) s in
                case write_error of
                  Some message \<Rightarrow>
                    send_toast (Toast_error ''Failed to Update Purchase'' message) s
                | None \<Rightarrow>
                    purchases_fetchPurchases auth2 res2
                      (purchases_resetForm today (send_toast (Toast_success ''Purchase Updated''
                         (''Purchase from '' @ template (purchase_form.vendor_name (formData s)) @
                          '' has been successfully updated.'')) s)))
           | None \<Rightarrow>
               (let s = issue (Insert ''purchases'' purchaseData) s in
                case write_error of
                  Some message \<Rightarrow>
                    send_toast (Toast_error ''Failed to Create Purchase'' message) s
                | None \<Rightarrow>
                    purchases_fetchPurchases auth2 res2
                      (purchases_resetForm today (send_toast (Toast_success ''Purchase Created''
                         (''Purchase from '' @ template (purchase_form.vendor_name (formData s)) @
                          '' has been successfully created.'')) s))))
          \<lparr>loading := False\<rparr>)"

definition purchases_handleDelete ::
  "string \<Rightarrow> bool \<Rightarrow> auth_response \<Rightarrow> string option \<Rightarrow> auth_response
     \<Rightarrow> purchase list query_response \<Rightarrow> purchases_page \<Rightarrow> purchases_page" where
  "purchases_handleDelete i confirmed auth delete_error auth2 res2 s0 =
     (let purchase = find (\<lambda>r. purchase.id' r = i) (purchases_page.purchases s0) in
      if \<not> confirmed then s0
      else
        let s = issue Auth_getUser (s0\<lparr>loading := True\<rparr>) in
        if auth_failed auth then
          (send_toast (Toast_error ''Authentication Error''
             ''Please log in to perform this action.'') s)\<lparr>loading := False\<rparr>
        else
          let uid = (case user auth of None \<Rightarrow> [] | Some u \<Rightarrow> u);
              s = issue (Delete ''purchases'' [(''id'', i), (''user_id'', uid)]) s in
          (case delete_error of
             Some message \<Rightarrow>
               send_toast (Toast_error ''Failed to Delete Purchase'' message) s
           | None \<Rightarrow>
               purchases_fetchPurchases auth2 res2
                 (send_toast (Toast_success ''Purchase Deleted''
                    (''Purchase from '' @
                     str_or (map_option purchase.vendor_name purchase) ''vendor'' @
                     '' has been successfully deleted.'')) s))
          \<lparr>loading := False\<rparr>)"

subsection \<open>Ledger page\<close>

text \<open>The object \<open>entryData\<close> that \<open>handleSubmit\<close> writes.\<close>

record ledger_entry_data =
  user_id :: string
  entity_type :: string
  entity_id :: "string option"
  entity_name :: string
  transaction_type :: string
  amount :: js_number
  description :: "string option"
  reference_id :: "string option"
  reference_type :: "string option"

record ledger_page = "(ledger_form, ledger_entry_data) page" +
  ledgerEntries :: "ledger_entry list"
  customers :: "party list"
  vendors :: "party list"

definition ledger_entryData :: "string \<Rightarrow> ledger_form \<Rightarrow> ledger_entry_data" where
  "ledger_entryData uid f =
     \<lparr>ledger_entry_data.user_id = uid,
      ledger_entry_data.entity_type = str_or (ledger_form.entity_type f) ''customer'',
      ledger_entry_data.entity_id = str_or_null (ledger_form.entity_id f),
      ledger_entry_data.entity_name = str_or (map_option trim (ledger_form.entity_name f)) [],
      ledger_entry_data.transaction_type = str_or (ledger_form.transaction_type f) ''debit'',
      ledger_entry_data.amount = number_or (ledger_form.amount f) (Num 0),
      ledger_entry_data.description = str_or_null (map_option trim (ledger_form.description f)),
      ledger_entry_data.reference_id = str_or_null (ledger_form.reference_id f),
      ledger_entry_data.reference_type =
        str_or_null (map_option trim (ledger_form.reference_type f))\<rparr>"

definition ledger_fetchLedgerEntries ::
  "auth_response \<Rightarrow> ledger_entry list query_response \<Rightarrow> ledger_page
     \<Rightarrow> ledger_page" where
  "ledger_fetchLedgerEntries auth res s0 =
     (let s = issue Auth_getUser (s0\<lparr>loading := True\<rparr>) in
      if auth_failed auth then
        (router_push ''/login''
           (send_toast (Toast_error ''Authentication Error''
              ''Please log in to view ledger entries.'') s))\<lparr>loading := False\<rparr>
      else
        let s = issue (Select ''ledger_entries'') s in
        (case error res of
           Some message \<Rightarrow> send_toast (Toast_error ''Failed to Fetch Ledger Entries'' message) s
         | None \<Rightarrow>
             s\<lparr>ledger_page.ledgerEntries := (case data res of None \<Rightarrow> [] | Some rows \<Rightarrow> rows)\<rparr>)
        \<lparr>loading := False\<rparr>)"

definition ledger_fetchCustomers ::
  "auth_response \<Rightarrow> party list query_response \<Rightarrow> ledger_page
     \<Rightarrow> ledger_page" where
  "ledger_fetchCustomers auth res s0 =
     (let s = issue Auth_getUser s0 in
      if auth_failed auth then s
      else
        let s = issue (Select ''customers'') s in
        (case error res of
           Some message \<Rightarrow> s
         | None \<Rightarrow>
             s\<lparr>ledger_page.customers := (case data res of None \<Rightarrow> [] | Some rows \<Rightarrow> rows)\<rparr>))"

definition ledger_fetchVendors ::
  "auth_response \<Rightarrow> party list query_response \<Rightarrow> ledger_page
     \<Rightarrow> ledger_page" where
  "ledger_fetchVendors auth res s0 =
     (let s = issue Auth_getUser s0 in
      if auth_failed auth then s
      else
        let s = issue (Select ''vendors'') s in
        (case error res of
           Some message \<Rightarrow> s
         | None \<Rightarrow>
             s\<lparr>ledger_page.vendors := (case data res of None \<Rightarrow> [] | Some rows \<Rightarrow> rows)\<rparr>))"

definition ledger_resetForm :: "ledger_page \<Rightarrow> ledger_page" where
  "ledger_resetForm s =
     s\<lparr>formData :=
         \<lparr>ledger_form.entity_type = Some ''customer'', ledger_form.entity_id = Some [],
          ledger_form.entity_name = Some [], ledger_form.transaction_type = Some ''debit'',
          ledger_form.amount = Some (Num 0), ledger_form.description = Some [],
          ledger_form.reference_id = Some [], ledger_form.reference_type = Some []\<rparr>,
       editingId := None\<rparr>"

definition ledger_handleSubmit ::
  "auth_response \<Rightarrow> string option \<Rightarrow> auth_response \<Rightarrow> ledger_entry list query_response
     \<Rightarrow> ledger_page \<Rightarrow> ledger_page" where
  "ledger_handleSubmit auth write_error auth2 res2 s0 =
     (if \<not> fst (ledger_validateForm (formData s0)) then
        s0\<lparr>toasts := toasts s0 @ snd (ledger_validateForm (formData s0))\<rparr>
      else
        let s = issue Auth_getUser (s0\<lparr>loading := True\<rparr>) in
        if auth_failed auth then
          (send_toast (Toast_error ''Authentication Error''
             ''Please log in to perform this action.'') s)\<lparr>loading := False\<rparr>
        else
          let uid = (case user auth of None \<Rightarrow> [] | Some u \<Rightarrow> u);
              entryData = ledger_entryData uid (formData s) in
          (case str_or_null (editingId s) of
             Some eid \<Rightarrow>
               (let s = issue (Update ''ledger_entries'' entryData [(''id'', eid), (''user_id'', uid)]) s in
                case write_error of
                  Some message \<Rightarrow>
                    send_toast (Toast_error ''Failed to Update Ledger Entry'' message) s
                | None \<Rightarrow>
                    ledger_fetchLedgerEntries auth2 res2
                      (ledger_resetForm (send_toast (Toast_success ''Ledger Entry Updated''
                         (''Ledger entry for '' @ template (ledger_form.entity_name (formData s)) @
                          '' has been successfully updated.'')) s)))
           | None \<Rightarrow>
               (let s = issue (Insert ''ledger_entries'' entryData) s in
                case write_error of
                  Some message \<Rightarrow>
                    send_toast (Toast_error ''Failed to Create Ledger Entry'' message) s
                | None \<Rightarrow>
                    ledger_fetchLedgerEntries auth2 res2
                      (ledger_resetForm (send_toast (Toast_success ''Ledger Entry Created''
                         (''Ledger entry for '' @ template (ledger_form.entity_name (formData s)) @
                          '' has been successfully created.'')) s))))
          \<lparr>loading := False\<rparr>)"

definition ledger_handleDelete ::
  "string \<Rightarrow> bool \<Rightarrow> auth_response \<Rightarrow> string option \<Rightarrow> auth_response
     \<Rightarrow> ledger_entry list query_response \<Rightarrow> ledger_page \<Rightarrow> ledger_page" where
  "ledger_handleDelete i confirmed auth delete_error auth2 res2 s0 =
     (let entry = find (\<lambda>r. ledger_entry.id' r = i) (ledger_page.ledgerEntries s0) in
      if \<not> confirmed then s0
      else
        let s = issue Auth_getUser (s0\<lparr>loading := True\<rparr>) in
        if auth_failed auth then
          (send_toast (Toast_error ''Authentication Error''
             ''Please log in to perform this action.'') s)\<lparr>loading := False\<rparr>
        else
          let uid = (case user auth of None \<Rightarrow> [] | Some u \<Rightarrow> u);
              s = issue (Delete ''ledger_entries'' [(''id'', i), (''user_id'', uid)]) s in
          (case delete_error of
             Some message \<Rightarrow>
               send_toast (Toast_error ''Failed to Delete Ledger Entry'' message) s
           | None \<Rightarrow>
               ledger_fetchLedgerEntries auth2 res2
                 (send_toast (Toast_success ''Ledger Entry Deleted''
                    (''Ledger entry for '' @
                     str_or (map_option ledger_entry.entity_name entry) ''entity'' @
                     '' has been successfully deleted.'')) s))
          \<lparr>loading := False\<rparr>)"

section \<open>Properties stated by the specification\<close>

subsection \<open>Filter predicates\<close>

text \<open>
  The condition each filter step puts on a record. A step that is switched off (an empty
  search, the value \<open>all\<close>) accepts every record.
\<close>

definition product_matches_search :: "string \<Rightarrow> product \<Rightarrow> bool" where
  "product_matches_search searchTerm p =
     (trim searchTerm = [] \<or>
      js_includes (toLowerCase (product.name p)) (toLowerCase searchTerm) \<or>
      js_includes (toLowerCase (product.category p)) (toLowerCase searchTerm))"

definition product_matches_category :: "string \<Rightarrow> product \<Rightarrow> bool" where
  "product_matches_category categoryFilter p =
     (categoryFilter = ''all'' \<or> product.category p = categoryFilter)"

definition product_matches_stock :: "string \<Rightarrow> product \<Rightarrow> bool" where
  "product_matches_stock stockFilter p =
     (if stockFilter = ''low'' then js_le (product.quantity p) (product.min_stock p)
      else if stockFilter = ''out'' then js_strict_eq (product.quantity p) (Num 0)
      else if stockFilter = ''instock'' then js_gt (product.quantity p) (product.min_stock p)
      else True)"

definition entry_matches_search :: "string \<Rightarrow> ledger_entry \<Rightarrow> bool" where
  "entry_matches_search searchTerm entry =
     (trim searchTerm = [] \<or>
      js_includes (toLowerCase (ledger_entry.entity_name entry)) (toLowerCase searchTerm) \<or>
      (case ledger_entry.description entry of None \<Rightarrow> False
       | Some d \<Rightarrow> js_includes (toLowerCase d) (toLowerCase searchTerm)) \<or>
      js_includes (toLowerCase (ledger_entry.id' entry)) (toLowerCase searchTerm))"

definition entry_matches_entityType :: "string \<Rightarrow> ledger_entry \<Rightarrow> bool" where
  "entry_matches_entityType entityTypeFilter entry =
     (entityTypeFilter = ''all'' \<or> ledger_entry.entity_type entry = entityTypeFilter)"

definition entry_matches_transactionType :: "string \<Rightarrow> ledger_entry \<Rightarrow> bool" where
  "entry_matches_transactionType transactionTypeFilter entry =
     (transactionTypeFilter = ''all'' \<or>
      ledger_entry.transaction_type entry = transactionTypeFilter)"

text \<open>Three products for the examples: out of stock, low on stock and in stock.\<close>

definition product_out :: product where
  "product_out =
     \<lparr>product.id' = ''p1'', product.user_id = ''u1'', product.name = ''Hammer'',
      product.category = ''Tools'', product.quantity = Num 0, product.price = Num 12,
      product.min_stock = Num 10, product.created_at = [], product.updated_at = []\<rparr>"

definition product_low :: product where
  "product_low =
     \<lparr>product.id' = ''p2'', product.user_id = ''u1'', product.name = ''Widget'',
      product.category = ''Tools'', product.quantity = Num 5, product.price = Num 3,
      product.min_stock = Num 10, product.created_at = [], product.updated_at = []\<rparr>"

definition product_in :: product where
  "product_in =
     \<lparr>product.id' = ''p3'', product.user_id = ''u1'', product.name = ''Paint'',
      product.category = ''Decor'', product.quantity = Num 20, product.price = Num 8,
      product.min_stock = Num 10, product.created_at = [], product.updated_at = []\<rparr>"

subsection \<open>Validation rules\<close>

text \<open>
  A rule is the condition under which a form violates it, with the reason it reports. The
  rules of each page are listed in the order in which the page checks them: validation
  reports the first rule of the list that the form violates, and nothing else.
\<close>

type_synonym 'f rule = "('f \<Rightarrow> bool) \<times> string"

definition first_violation :: "'f rule list \<Rightarrow> 'f \<Rightarrow> string option" where
  "first_violation rules f = map_option snd (find (\<lambda>r. fst r f) rules)"

definition report :: "string option \<Rightarrow> bool \<times> toast list" where
  "report v = (case v of None \<Rightarrow> (True, [])
     | Some reason \<Rightarrow> (False, [Toast_error ''Validation Error'' reason]))"

definition products_rules :: "product_form rule list" where
  "products_rules =
     [(\<lambda>f. falsy_str (map_option trim (product_form.name f)), ''Product name is required.''),
      (\<lambda>f. falsy_str (map_option trim (product_form.category f)), ''Category is required.''),
      (\<lambda>f. falsy_num (product_form.price f) \<or> js_le (Number (product_form.price f)) (Num 0),
       ''Price must be greater than zero.''),
      (\<lambda>f. product_form.quantity f \<noteq> None \<and> js_lt (Number (product_form.quantity f)) (Num 0),
       ''Quantity cannot be negative.''),
      (\<lambda>f. product_form.min_stock f \<noteq> None \<and> js_lt (Number (product_form.min_stock f)) (Num 0),
       ''Minimum stock cannot be negative.'')]"

definition saleItems_rules :: "sale_item_form rule list" where
  "saleItems_rules =
     [(\<lambda>f. falsy_str (sale_item_form.sale_id f), ''Sale selection is required.''),
      (\<lambda>f. falsy_str (map_option trim (sale_item_form.product_name f)),
       ''Product name is required.''),
      (\<lambda>f. falsy_num (sale_item_form.quantity f) \<or>
            js_le (Number (sale_item_form.quantity f)) (Num 0),
       ''Quantity must be greater than zero.''),
      (\<lambda>f. falsy_num (sale_item_form.price f) \<or> js_le (Number (sale_item_form.price f)) (Num 0),
       ''Price must be greater than zero.'')]"

definition purchaseItems_rules :: "purchase_item_form rule list" where
  "purchaseItems_rules =
     [(\<lambda>f. falsy_str (purchase_item_form.purchase_id f), ''Purchase selection is required.''),
      (\<lambda>f. falsy_str (map_option trim (purchase_item_form.product_name f)),
       ''Product name is required.''),
      (\<lambda>f. falsy_num (purchase_item_form.quantity f) \<or>
            js_le (Number (purchase_item_form.quantity f)) (Num 0),
       ''Quantity must be greater than zero.''),
      (\<lambda>f. falsy_num (purchase_item_form.price f) \<or>
            js_le (Number (purchase_item_form.price f)) (Num 0),
       ''Price must be greater than zero.'')]"

definition party_rules :: "string \<Rightarrow> party_form rule list" where
  "party_rules name_required =
     [(\<lambda>f. falsy_str (map_option trim (party_form.name f)), name_required),
      (\<lambda>f. case party_form.email f of None \<Rightarrow> False
            | Some e \<Rightarrow> e \<noteq> [] \<and> \<not> email_regex_test e,
       ''Please enter a valid email address.''),
      (\<lambda>f. \<not> falsy_num (party_form.balance f) \<and> js_lt (Number (party_form.balance f)) (Num 0),
       ''Balance cannot be negative.'')]"

definition purchases_rules :: "purchase_form rule list" where
  "purchases_rules =
     [(\<lambda>f. falsy_str (map_option trim (purchase_form.vendor_name f)),
       ''Vendor name is required.''),
      (\<lambda>f. falsy_num (purchase_form.subtotal f) \<or>
            js_le (Number (purchase_form.subtotal f)) (Num 0),
       ''Subtotal must be greater than zero.''),
      (\<lambda>f. purchase_form.tax f \<noteq> None \<and> js_lt (Number (purchase_form.tax f)) (Num 0),
       ''Tax cannot be negative.'')]"

definition ledger_rules :: "ledger_form rule list" where
  "ledger_rules =
     [(\<lambda>f. falsy_str (ledger_form.entity_type f), ''Entity type is required.''),
      (\<lambda>f. falsy_str (ledger_form.entity_id f) \<and>
            falsy_str (map_option trim (ledger_form.entity_name f)),
       ''Entity selection or name is required.''),
      (\<lambda>f. falsy_str (ledger_form.transaction_type f), ''Transaction type is required.''),
      (\<lambda>f. falsy_num (ledger_form.amount f) \<or> js_le (Number (ledger_form.amount f)) (Num 0),
       ''Amount must be greater than zero.'')]"

subsection \<open>Whole amounts and example entries\<close>

text \<open>A number is whole when it is finite and has no fractional part; \<open>int_of\<close> is its value.\<close>

definition whole :: "js_number \<Rightarrow> bool" where
  "whole x = (case x of Num r \<Rightarrow> r = of_int \<lfloor>r\<rfloor> | _ \<Rightarrow> False)"

definition int_of :: "js_number \<Rightarrow> int" where
  "int_of x = (case x of Num r \<Rightarrow> \<lfloor>r\<rfloor> | _ \<Rightarrow> 0)"

text \<open>A ledger entry with a given transaction type and amount, for the examples.\<close>

definition entry_of :: "string \<Rightarrow> js_number \<Rightarrow> ledger_entry" where
  "entry_of t a =
     \<lparr>ledger_entry.id' = ''e'', ledger_entry.user_id = ''u1'',
      ledger_entry.entity_type = ''customer'', ledger_entry.entity_id = None,
      ledger_entry.entity_name = ''Acme'', ledger_entry.transaction_type = t,
      ledger_entry.amount = a, ledger_entry.description = None,
      ledger_entry.reference_id = None, ledger_entry.reference_type = None,
      ledger_entry.created_at = []\<rparr>"

text \<open>
  The sums the specification names for the ledger statistics: the amounts of the entries of
  one transaction type, added as the rational numbers they denote, without rounding.
  \<open>value_of\<close> is the rational a finite number denotes.
\<close>

definition value_of :: "js_number \<Rightarrow> rat" where
  "value_of x = (case x of Num r \<Rightarrow> r | _ \<Rightarrow> 0)"

definition sum_of_amounts :: "string \<Rightarrow> ledger_entry list \<Rightarrow> rat" where
  "sum_of_amounts t es =
     sum_list (map (\<lambda>e. value_of (ledger_entry.amount e))
       (filter (\<lambda>e. ledger_entry.transaction_type e = t) es))"

text \<open>The binary64 values of the literals \<open>0.1\<close>, \<open>0.2\<close> and \<open>0.3\<close>.\<close>

definition tenth :: js_number where
  "tenth = Num (3602879701896397 / 36028797018963968)"

definition fifth :: js_number where
  "fifth = Num (3602879701896397 / 18014398509481984)"

definition three_tenths :: js_number where
  "three_tenths = Num (5404319552844595 / 18014398509481984)"

text \<open>A sale item and a purchase item with a given total, and a form with given numbers.\<close>

definition sale_item_of :: "js_number \<Rightarrow> sale_item" where
  "sale_item_of t =
     \<lparr>sale_item.id' = ''i'', sale_item.sale_id = ''s1'', sale_item.product_id = None,
      sale_item.product_name = ''Widget'', sale_item.quantity = Num 1, sale_item.price = t,
      sale_item.total = t, sale_item.created_at = []\<rparr>"

definition purchase_item_of :: "js_number \<Rightarrow> purchase_item" where
  "purchase_item_of t =
     \<lparr>purchase_item.id' = ''i'', purchase_item.purchase_id = ''p1'',
      purchase_item.product_id = None, purchase_item.product_name = ''Widget'',
      purchase_item.quantity = Num 1, purchase_item.price = t, purchase_item.total = t,
      purchase_item.created_at = []\<rparr>"

definition sale_form_of :: "js_number option \<Rightarrow> js_number option \<Rightarrow> sale_item_form" where
  "sale_form_of q p =
     \<lparr>sale_item_form.sale_id = Some ''s1'', sale_item_form.product_id = Some [],
      sale_item_form.product_name = Some ''Widget'', sale_item_form.quantity = q,
      sale_item_form.price = p, sale_item_form.total = Some (Num 0)\<rparr>"

subsection \<open>The date filter\<close>

definition purchase_matches_search :: "string \<Rightarrow> purchase \<Rightarrow> bool" where
  "purchase_matches_search searchTerm p =
     (trim searchTerm = [] \<or>
      js_includes (toLowerCase (purchase.vendor_name p)) (toLowerCase searchTerm) \<or>
      js_includes (toLowerCase (purchase.id' p)) (toLowerCase searchTerm))"

definition purchase_matches_status :: "string \<Rightarrow> purchase \<Rightarrow> bool" where
  "purchase_matches_status statusFilter p =
     (statusFilter = ''all'' \<or> purchase.status p = statusFilter)"

text \<open>The window the specification names: the 30 days that end now.\<close>

definition last_30_days :: "int \<Rightarrow> int \<Rightarrow> bool" where
  "last_30_days now t = (now - 30 * msPerDay \<le> t \<and> t \<le> now)"

text \<open>
  The instant the \<open>month\<close> filter compares with: counted from the first day of the calendar
  month before the current one, the day of the month and the time of day that now has in
  local time, taken back to UTC with the offset the zone has at that local time.
\<close>

definition month_cutoff :: "host \<Rightarrow> int \<Rightarrow> int option" where
  "month_cutoff h now =
     (case civil_from_days (Day (LocalTime h now)) of (y, m, d) \<Rightarrow>
        TimeClip (UTC h
          ((days_from_civil (y + (m - 1) div 12) ((m - 1) mod 12) 1 + d - 1) * msPerDay
           + TimeWithinDay (LocalTime h now))))"

text \<open>
  Two hosts for the examples. The first is in UTC. The second is in New York in 2025, where
  the clocks are four hours behind UTC from 9 March, 07:00 UTC (03:00 local time), to
  2 November, 06:00 UTC (02:00 local time), and five hours behind otherwise. The examples
  hold only calendar dates, so what the hosts make of other strings does not matter there.
\<close>

definition utc_host :: host where
  "utc_host = \<lparr>offset_at_utc = (\<lambda>t. 0), offset_at_local = (\<lambda>t. 0), parse_other = (\<lambda>s. None)\<rparr>"

definition new_york_2025 :: host where
  "new_york_2025 =
     \<lparr>offset_at_utc =
        (\<lambda>t. if 1741503600000 \<le> t \<and> t < 1762063200000 then - 14400000 else - 18000000),
      offset_at_local =
        (\<lambda>t. if 1741489200000 \<le> t \<and> t < 1762048800000 then - 14400000 else - 18000000),
      parse_other = (\<lambda>s. None)\<rparr>"

text \<open>
  A purchase of a given date; noon UTC of 15 March 2025, and 23:30 UTC of the same day,
  which is 19:30 in New York.
\<close>

definition purchase_on :: "string \<Rightarrow> purchase" where
  "purchase_on d =
     \<lparr>purchase.id' = ''b1'', purchase.user_id = ''u1'', purchase.vendor_id = None,
      purchase.vendor_name = ''Acme'', purchase.purchase_date = d, purchase.subtotal = Num 100,
      purchase.tax = Num 0, purchase.total = Num 100, purchase.status = ''paid'',
      purchase.created_at = []\<rparr>"

definition noon_15_march_2025 :: int where
  "noon_15_march_2025 = 1742040000000"

definition evening_15_march_2025 :: int where
  "evening_15_march_2025 = 1742081400000"

subsection \<open>The outcome of a failed call\<close>

text \<open>
  The state a handler leaves when the collaborator has answered its operation with an error
  that the handler reports: \<open>loading\<close> is false, one notification is added, and two calls have
  been made, one for the user and one for the operation. The lists of records, the form, the
  edited id and the redirections are those of the state before.
\<close>

definition after_reported_error ::
  "('f, 'd, 'z) page_scheme \<Rightarrow> toast \<Rightarrow> 'd db_call \<Rightarrow> ('f, 'd, 'z) page_scheme" where
  "after_reported_error s t c =
     s\<lparr>loading := False, toasts := toasts s @ [t], calls := calls s @ [Auth_getUser, c]\<rparr>"

text \<open>The state when the handler does not report the error: only the two calls are added.\<close>

definition after_silent_error ::
  "('f, 'd, 'z) page_scheme \<Rightarrow> 'd db_call \<Rightarrow> ('f, 'd, 'z) page_scheme" where
  "after_silent_error s c = s\<lparr>calls := calls s @ [Auth_getUser, c]\<rparr>"

text \<open>
  Example states of the ledger page and of the sale items page, each with a valid form, and
  the answer of the collaborator for a user who is signed in.
\<close>

definition example_page :: ledger_page where
  "example_page =
     \<lparr>formData =
        \<lparr>ledger_form.entity_type = Some ''customer'', ledger_form.entity_id = Some [],
         ledger_form.entity_name = Some ''Acme'', ledger_form.transaction_type = Some ''debit'',
         ledger_form.amount = Some (Num 25), ledger_form.description = Some [],
         ledger_form.reference_id = Some [], ledger_form.reference_type = Some []\<rparr>,
      editingId = None, loading = False, toasts = [], pushed = [], calls = [],
      ledger_page.ledgerEntries = [entry_of ''debit'' (Num 100), entry_of ''credit'' (Num 150)],
      ledger_page.customers = [], ledger_page.vendors = []\<rparr>"

definition example_saleItems_page :: saleItems_page where
  "example_saleItems_page =
     \<lparr>formData = sale_form_of (Some (Num 2)) (Some (Num 5)),
      editingId = Some ''i'', loading = False, toasts = [], pushed = [], calls = [],
      saleItems_page.saleItems = [sale_item_of (Num 10)], saleItems_page.sales = [],
      saleItems_page.products = []\<rparr>"

definition signed_in :: auth_response where
  "signed_in = \<lparr>user = Some ''u1'', authError = None\<rparr>"

section \<open>The rounding of numbers\<close>

text \<open>
  The exponent that \<open>floor_log2\<close> computes is the binary exponent of its argument, and
  \<open>round_half_even\<close> returns a nearest integer.
\<close>

lemma bitlen_pos: "0 < n \<Longrightarrow> 1 \<le> bitlen n"
  using bitlen_eq_zero_iff [of n] bitlen_nonneg [of n] by linarith

lemma bitlen_one: "bitlen 1 = 1"
  by code_simp

lemma powi_diff_nat: "(2::rat) powi (int a - int b) = 2 ^ a / 2 ^ b"
  by (simp add: power_int_diff)

lemma floor_log2_bounds:
  assumes "0 < r"
  shows "2 powi (floor_log2 r) \<le> r \<and> r < 2 powi (floor_log2 r + 1)"
proof -
  obtain p q where pq: "quotient_of r = (p, q)" by (cases "quotient_of r")
  have q: "0 < q" using pq by (rule quotient_of_denom_pos)
  have r: "r = of_int p / of_int q" using pq by (rule quotient_of_div)
  have p: "0 < p" using assms q r by (simp add: zero_less_divide_iff)
  define a where "a = nat (bitlen p)"
  define b where "b = nat (bitlen q)"
  have a: "bitlen p = int a" "0 < a" using bitlen_pos [OF p] by (simp_all add: a_def)
  have b: "bitlen q = int b" "0 < b" using bitlen_pos [OF q] by (simp_all add: b_def)
  have pb: "2 ^ (a - 1) \<le> p" "p < 2 ^ a"
    using bitlen_bounds [OF p] a by (simp_all add: nat_diff_distrib)
  have qb: "2 ^ (b - 1) \<le> q" "q < 2 ^ b"
    using bitlen_bounds [OF q] b by (simp_all add: nat_diff_distrib)
  have P: "(2::rat) ^ (a - 1) \<le> of_int p" "of_int p < (2::rat) ^ a"
    using pb by (metis of_int_le_iff of_int_numeral of_int_power, metis of_int_less_iff of_int_numeral of_int_power)
  have Q: "(2::rat) ^ (b - 1) \<le> of_int q" "of_int q < (2::rat) ^ b"
    using qb by (metis of_int_le_iff of_int_numeral of_int_power, metis of_int_less_iff of_int_numeral of_int_power)
  have q0: "(0::rat) < of_int q" using q by simp
  have upper: "r < 2 powi (bitlen p - bitlen q + 1)"
  proof -
    have "r < 2 ^ a / 2 ^ (b - 1)"
      unfolding r using p P(2) Q(1) by (intro frac_less) simp_all
    also have "\<dots> = 2 powi (int a - int (b - 1))" by (simp add: powi_diff_nat)
    also have "int a - int (b - 1) = bitlen p - bitlen q + 1" using a b by simp
    finally show ?thesis .
  qed
  have lower: "2 powi (bitlen p - bitlen q - 1) \<le> r"
  proof -
    have "2 powi (int (a - 1) - int b) = (2::rat) ^ (a - 1) / 2 ^ b" by (simp add: powi_diff_nat)
    also have "\<dots> \<le> r"
      unfolding r using p P(1) Q(2) q0 by (intro frac_le) simp_all
    finally have "2 powi (int (a - 1) - int b) \<le> r" .
    moreover have "int (a - 1) - int b = bitlen p - bitlen q - 1" using a b by simp
    ultimately show ?thesis by simp
  qed
  show ?thesis
  proof (cases "2 powi (bitlen p - bitlen q) \<le> r")
    case True
    then show ?thesis using upper by (simp add: floor_log2_def pq Let_def)
  next
    case False
    then show ?thesis using lower by (simp add: floor_log2_def pq Let_def)
  qed
qed

lemma round_half_even_nearest: "\<bar>of_int (round_half_even x) - x\<bar> \<le> 1 / 2"
proof -
  have "of_int \<lfloor>x\<rfloor> \<le> x" "x < of_int \<lfloor>x\<rfloor> + 1" by linarith+
  then show ?thesis by (auto simp: round_half_even_def Let_def)
qed

text \<open>Whole numbers below \<open>2\<^sup>5\<^sup>3\<close> in absolute value are not changed by rounding.\<close>

lemma floor_log2_of_int:
  assumes "0 < n"
  shows "floor_log2 (of_int n) = bitlen n - 1"
proof -
  have b: "2 ^ nat (bitlen n - 1) \<le> n" using bitlen_bounds [OF assms] by simp
  have pos: "0 \<le> bitlen n - 1" using bitlen_pos [OF assms] by simp
  have "(2::rat) powi (bitlen n - 1) = 2 ^ nat (bitlen n - 1)"
    using pos by (simp add: power_int_def)
  also have "\<dots> = of_int (2 ^ nat (bitlen n - 1))" by simp
  also have "\<dots> \<le> of_int n" using b by (simp only: of_int_le_iff)
  finally show ?thesis by (simp add: floor_log2_def bitlen_one Let_def)
qed

lemma round_half_even_of_int: "round_half_even (of_int k) = k"
  by (simp add: round_half_even_def)

lemma round_binary64_pos_int:
  assumes "0 < n" "n < 2 ^ 53"
  shows "round_binary64 (of_int n) = Num (of_int n)"
proof -
  define k where "k = nat (53 - bitlen n)"
  have bl: "1 \<le> bitlen n" by (rule bitlen_pos [OF assms(1)])
  have bu: "bitlen n \<le> 53" using assms(2) by (simp add: bitlen_le_iff_power)
  have e: "max (floor_log2 (of_int n)) (- 1022) - 52 = - int k"
    using bl bu by (simp add: floor_log2_of_int [OF assms(1)] k_def)
  have ulp: "(2::rat) powi (- int k) = 1 / 2 ^ k"
    by (simp add: power_int_def field_simps)
  have scaled: "rat_of_int n / (1 / 2 ^ k) = of_int (n * 2 ^ k)" by simp
  have v: "rat_of_int (round_half_even (of_int n / (1 / 2 ^ k))) * (1 / 2 ^ k) = of_int n"
    unfolding scaled round_half_even_of_int by simp
  have small: "\<not> (2::rat) ^ 1024 \<le> of_int n"
  proof -
    have "rat_of_int n < of_int (2 ^ 53)" using assms(2) by (simp only: of_int_less_iff)
    also have "\<dots> \<le> 2 ^ 1024" by simp
    finally show ?thesis by simp
  qed
  have a: "\<bar>rat_of_int n\<bar> = of_int n" using assms(1) by simp
  show ?thesis
    unfolding round_binary64_def Let_def a e ulp v
    using assms(1) small by simp
qed

lemma round_binary64_uminus:
  "round_binary64 (- r) = js_neg (round_binary64 r)"
  by (cases "r = 0"; cases "0 < r") (simp_all add: round_binary64_def Let_def)

lemma round_binary64_of_int:
  assumes "\<bar>n\<bar> < 2 ^ 53"
  shows "round_binary64 (of_int n) = Num (of_int n)"
proof -
  consider "n = 0" | "0 < n" | "n < 0" by linarith
  then show ?thesis
  proof cases
    case 1
    then show ?thesis by (simp add: round_binary64_def)
  next
    case 2
    then show ?thesis using assms round_binary64_pos_int by simp
  next
    case 3
    then have "round_binary64 (of_int (- n)) = Num (of_int (- n))"
      using assms by (intro round_binary64_pos_int) simp_all
    then show ?thesis using round_binary64_uminus [of "of_int (- n)"] by simp
  qed
qed

section \<open>Stock status\<close>

text \<open>
  C1. For whole numbers \<open>q \<ge> 0\<close> and \<open>m \<ge> 0\<close>, \<open>getStockBadge\<close> returns the out-of-stock badge
  exactly when \<open>q = 0\<close> (whatever \<open>m\<close> is), the low-stock badge exactly when \<open>0 < q \<le> m\<close>,
  and the in-stock badge exactly when \<open>q > m\<close>; being a function into the three badges it
  returns exactly one of them.
\<close>

theorem getStockBadge_partition:
  fixes q m :: int
  assumes "0 \<le> q" and "0 \<le> m"
  shows "(getStockBadge (Num (of_int q)) (Num (of_int m)) = Out_of_Stock \<longleftrightarrow> q = 0)
       \<and> (getStockBadge (Num (of_int q)) (Num (of_int m)) = Low_Stock \<longleftrightarrow> 0 < q \<and> q \<le> m)
       \<and> (getStockBadge (Num (of_int q)) (Num (of_int m)) = In_Stock \<longleftrightarrow> m < q)"
  using assms by (auto simp: getStockBadge_def js_strict_eq_def js_le_def)

theorem getStockBadge_partition_witness:
  "getStockBadge (Num 5) (Num 10) = Low_Stock
   \<and> getStockBadge (Num 0) (Num 10) = Out_of_Stock
   \<and> getStockBadge (Num 20) (Num 10) = In_Stock"
  using getStockBadge_partition [of 5 10] getStockBadge_partition [of 0 10]
    getStockBadge_partition [of 20 10]
  by simp

section \<open>The stock filter\<close>

lemma products_stock_low:
  "products_stock ''low'' ps = filter (\<lambda>p. js_le (product.quantity p) (product.min_stock p)) ps"
  by (simp add: products_stock_def)

lemma low_iff_badge:
  "js_le q m \<longleftrightarrow>
     getStockBadge q m = Low_Stock \<or> (getStockBadge q m = Out_of_Stock \<and> js_le (Num 0) m)"
  by (auto simp: getStockBadge_def js_strict_eq_def)

text \<open>
  C9. The \<open>low\<close> stock filter keeps exactly the products with \<open>quantity <= min_stock\<close>. These
  are the products with the low-stock badge together with the products with the
  out-of-stock badge whose \<open>min_stock\<close> is at least 0: every product with the low-stock badge
  is kept, and so is every product with quantity 0 and \<open>min_stock \<ge> 0\<close>, which does not have
  the low-stock badge. With the other two filters switched off this is the whole effect.
\<close>

theorem low_filter_selection:
  "products_stock ''low'' ps = filter (\<lambda>p. js_le (product.quantity p) (product.min_stock p)) ps
   \<and> filteredProducts ps [] ''all'' ''low'' = products_stock ''low'' ps
   \<and> set (products_stock ''low'' ps) =
       {p \<in> set ps. getStockBadge (product.quantity p) (product.min_stock p) = Low_Stock} \<union>
       {p \<in> set ps. getStockBadge (product.quantity p) (product.min_stock p) = Out_of_Stock
                    \<and> js_le (Num 0) (product.min_stock p)}
   \<and> (\<forall>p \<in> set ps. js_strict_eq (product.quantity p) (Num 0) \<and> js_le (Num 0) (product.min_stock p)
         \<longrightarrow> p \<in> set (products_stock ''low'' ps)
             \<and> getStockBadge (product.quantity p) (product.min_stock p) \<noteq> Low_Stock)"
proof -
  have sel: "products_stock ''low'' ps =
      filter (\<lambda>p. js_le (product.quantity p) (product.min_stock p)) ps"
    by (rule products_stock_low)
  have whole: "filteredProducts ps [] ''all'' ''low'' = products_stock ''low'' ps"
    by (simp add: filteredProducts_def products_search_def products_category_def trim_def)
  have split: "set (products_stock ''low'' ps) =
       {p \<in> set ps. getStockBadge (product.quantity p) (product.min_stock p) = Low_Stock} \<union>
       {p \<in> set ps. getStockBadge (product.quantity p) (product.min_stock p) = Out_of_Stock
                    \<and> js_le (Num 0) (product.min_stock p)}"
  proof -
    have "\<And>p. js_le (product.quantity p) (product.min_stock p) \<longleftrightarrow>
        getStockBadge (product.quantity p) (product.min_stock p) = Low_Stock \<or>
        (getStockBadge (product.quantity p) (product.min_stock p) = Out_of_Stock \<and>
         js_le (Num 0) (product.min_stock p))"
      by (rule low_iff_badge)
    then show ?thesis unfolding sel set_filter by blast
  qed
  have out: "\<forall>p \<in> set ps.
       js_strict_eq (product.quantity p) (Num 0) \<and> js_le (Num 0) (product.min_stock p)
         \<longrightarrow> p \<in> set (products_stock ''low'' ps)
             \<and> getStockBadge (product.quantity p) (product.min_stock p) \<noteq> Low_Stock"
    unfolding sel by (auto simp: getStockBadge_def js_strict_eq_def)
  from sel whole split out show ?thesis by blast
qed

theorem low_filter_selection_witness:
  "products_stock ''low'' [product_out, product_low, product_in] = [product_out, product_low]
   \<and> getStockBadge (product.quantity product_out) (product.min_stock product_out) = Out_of_Stock
   \<and> getStockBadge (product.quantity product_low) (product.min_stock product_low) = Low_Stock"
proof -
  have "products_stock ''low'' [product_out, product_low, product_in] =
      filter (\<lambda>p. js_le (product.quantity p) (product.min_stock p))
        [product_out, product_low, product_in]"
    using low_filter_selection [of "[product_out, product_low, product_in]"] by blast
  then show ?thesis
    by (simp add: product_out_def product_low_def product_in_def js_le_def getStockBadge_def
        js_strict_eq_def)
qed

section \<open>Composition of the filters\<close>

lemma products_search_filter:
  "products_search s ps = filter (product_matches_search s) ps"
  by (cases "trim s = []") (simp_all add: products_search_def product_matches_search_def [abs_def])

lemma products_category_filter:
  "products_category c ps = filter (product_matches_category c) ps"
  by (cases "c = ''all''") (simp_all add: products_category_def product_matches_category_def [abs_def])

lemma products_stock_filter:
  "products_stock k ps = filter (product_matches_stock k) ps"
  by (simp add: products_stock_def product_matches_stock_def [abs_def])

lemma ledger_search_filter:
  "ledger_search s es = filter (entry_matches_search s) es"
  by (cases "trim s = []") (simp_all add: ledger_search_def entry_matches_search_def [abs_def])

lemma ledger_entityType_filter:
  "ledger_entityType t es = filter (entry_matches_entityType t) es"
  by (cases "t = ''all''") (simp_all add: ledger_entityType_def entry_matches_entityType_def [abs_def])

lemma ledger_transactionType_filter:
  "ledger_transactionType t es = filter (entry_matches_transactionType t) es"
  by (cases "t = ''all''")
    (simp_all add: ledger_transactionType_def entry_matches_transactionType_def [abs_def])

lemma filter_swap: "filter P (filter Q xs) = filter Q (filter P xs)"
  by (induction xs) auto

text \<open>
  C7. Any two filter steps of the products page and of the ledger page give the same list
  in either order, for instance the search and the category filter; the list the page
  shows is the list of the records that satisfy the conjunction of the predicates of all
  steps, in the order of the collection.
\<close>

theorem filters_commute:
  "products_category c (products_search s ps) = products_search s (products_category c ps)
   \<and> products_stock k (products_search s ps) = products_search s (products_stock k ps)
   \<and> products_stock k (products_category c ps) = products_category c (products_stock k ps)
   \<and> products_category c (products_search s ps) =
       filter (\<lambda>p. product_matches_search s p \<and> product_matches_category c p) ps
   \<and> filteredProducts ps s c k =
       filter (\<lambda>p. product_matches_search s p \<and> product_matches_category c p
                  \<and> product_matches_stock k p) ps
   \<and> ledger_entityType t (ledger_search s es) = ledger_search s (ledger_entityType t es)
   \<and> ledger_transactionType u (ledger_search s es) = ledger_search s (ledger_transactionType u es)
   \<and> ledger_transactionType u (ledger_entityType t es) =
       ledger_entityType t (ledger_transactionType u es)
   \<and> filteredLedgerEntries es s t u =
       filter (\<lambda>e. entry_matches_search s e \<and> entry_matches_entityType t e
                  \<and> entry_matches_transactionType u e) es"
proof -
  have conj2: "\<And>P Q xs. filter Q (filter P xs) = filter (\<lambda>x. P x \<and> Q x) xs"
    by (simp add: conj_commute)
  have conj3: "\<And>P Q R xs. filter R (filter Q (filter P xs)) = filter (\<lambda>x. P x \<and> Q x \<and> R x) xs"
    by (simp add: conj_ac)
  show ?thesis
    unfolding filteredProducts_def filteredLedgerEntries_def
      products_search_filter products_category_filter products_stock_filter
      ledger_search_filter ledger_entityType_filter ledger_transactionType_filter
    by (intro conjI filter_swap conj2 conj3)
qed

theorem filters_commute_witness:
  "products_category ''Tools'' (products_search ''widget'' [product_out, product_low, product_in])
     = [product_low]
   \<and> products_search ''widget'' (products_category ''Tools'' [product_out, product_low, product_in])
     = [product_low]"
proof -
  have low: "product_matches_search ''widget'' product_low"
    by code_simp
  have out: "\<not> product_matches_search ''widget'' product_out"
    by code_simp
  have cat: "product_matches_category ''Tools'' product_low"
    "\<not> product_matches_category ''Tools'' product_in"
    by (simp_all add: product_matches_category_def product_low_def product_in_def)
  have both: "products_category ''Tools'' (products_search ''widget'' [product_out, product_low, product_in])
     = products_search ''widget'' (products_category ''Tools'' [product_out, product_low, product_in])"
    "products_category ''Tools'' (products_search ''widget'' [product_out, product_low, product_in])
     = filter (\<lambda>p. product_matches_search ''widget'' p \<and> product_matches_category ''Tools'' p)
         [product_out, product_low, product_in]"
    using filters_commute [of "''Tools''" "''widget''" "[product_out, product_low, product_in]"]
    by blast+
  show ?thesis
    unfolding both [symmetric] unfolding both(2) using low out cat by simp
qed

section \<open>Validation\<close>

text \<open>
  The test of the e-mail address accepts exactly the strings that the regular expression
  describes: three non-empty runs of characters other than white space and \<open>@\<close>,
  separated by \<open>@\<close> and by a dot.
\<close>

lemma dot_email_char: "email_char CHR ''.''"
  by (simp add: email_char_def is_js_space_def)

lemma at_not_email_char: "\<not> email_char CHR ''@''"
  by (simp add: email_char_def)

lemma email_regex_test_iff:
  "email_regex_test s \<longleftrightarrow>
     (\<exists>a b c. s = a @ ''@'' @ b @ ''.'' @ c \<and> a \<noteq> [] \<and> b \<noteq> [] \<and> c \<noteq> [] \<and>
        list_all email_char a \<and> list_all email_char b \<and> list_all email_char c)"
proof
  assume t: "email_regex_test s"
  define a where "a = takeWhile email_char s"
  obtain x t where d: "dropWhile email_char s = x # t"
    using t by (auto simp: email_regex_test_def split: list.splits)
  have x: "x = CHR ''@''" and tall: "list_all email_char t"
    and dot: "CHR ''.'' \<in> set (butlast (tl t))" and a: "a \<noteq> []"
    using t d by (auto simp: email_regex_test_def a_def)
  have s: "s = a @ ''@'' @ t"
    using takeWhile_dropWhile_id [of email_char s] d x by (simp add: a_def)
  obtain u v where uv: "butlast (tl t) = u @ CHR ''.'' # v"
    using dot by (meson split_list)
  have tl_ne: "tl t \<noteq> []" using uv by auto
  then have t_ne: "t \<noteq> []" by auto
  have tl_t: "tl t = u @ CHR ''.'' # v @ [last (tl t)]"
    using append_butlast_last_id [OF tl_ne] uv by simp
  have t_eq: "t = (hd t # u) @ ''.'' @ (v @ [last (tl t)])"
    using t_ne tl_t by (metis append_Cons append_Nil list.collapse)
  have "list_all email_char (hd t # u)" "list_all email_char (v @ [last (tl t)])"
    using tall by (subst (asm) t_eq, simp)+
  moreover have "list_all email_char a"
    by (simp add: a_def list_all_iff) (meson set_takeWhileD)
  ultimately show "\<exists>a b c. s = a @ ''@'' @ b @ ''.'' @ c \<and> a \<noteq> [] \<and> b \<noteq> [] \<and> c \<noteq> [] \<and>
        list_all email_char a \<and> list_all email_char b \<and> list_all email_char c"
    using s t_eq a by (metis Nil_is_append_conv list.distinct(1))
next
  assume "\<exists>a b c. s = a @ ''@'' @ b @ ''.'' @ c \<and> a \<noteq> [] \<and> b \<noteq> [] \<and> c \<noteq> [] \<and>
        list_all email_char a \<and> list_all email_char b \<and> list_all email_char c"
  then obtain a b c where s: "s = a @ CHR ''@'' # (b @ CHR ''.'' # c)"
    and ne: "a \<noteq> []" "b \<noteq> []" "c \<noteq> []"
    and al: "list_all email_char a" "list_all email_char b" "list_all email_char c"
    by auto
  have tk: "takeWhile email_char s = a"
    unfolding s using al(1) at_not_email_char by (simp add: list_all_iff takeWhile_tail)
  have dr: "dropWhile email_char s = CHR ''@'' # (b @ CHR ''.'' # c)"
    unfolding s using al(1) at_not_email_char by (simp add: list_all_iff dropWhile_append3)
  have allt: "list_all email_char (b @ CHR ''.'' # c)"
    using al dot_email_char by simp
  obtain b0 b' where b: "b = b0 # b'" using ne(2) by (cases b) auto
  have "butlast (tl (b @ CHR ''.'' # c)) = b' @ CHR ''.'' # butlast c"
    using ne(3) by (simp add: b butlast_append)
  then have "CHR ''.'' \<in> set (butlast (tl (b @ CHR ''.'' # c)))" by simp
  then show "email_regex_test s"
    using tk dr allt ne(1) by (simp add: email_regex_test_def)
qed

lemma products_validateForm_rules:
  "products_validateForm f = report (first_violation products_rules f)"
  by (simp add: products_validateForm_def products_rules_def first_violation_def report_def)

lemma saleItems_validateForm_rules:
  "saleItems_validateForm f = report (first_violation saleItems_rules f)"
  by (simp add: saleItems_validateForm_def saleItems_rules_def first_violation_def report_def)

lemma purchaseItems_validateForm_rules:
  "purchaseItems_validateForm f = report (first_violation purchaseItems_rules f)"
  by (simp add: purchaseItems_validateForm_def purchaseItems_rules_def first_violation_def
      report_def)

lemma customers_validateForm_rules:
  "customers_validateForm f =
     report (first_violation (party_rules ''Customer name is required.'') f)"
  by (simp add: customers_validateForm_def party_rules_def first_violation_def report_def)

lemma vendors_validateForm_rules:
  "vendors_validateForm f =
     report (first_violation (party_rules ''Vendor name is required.'') f)"
  by (simp add: vendors_validateForm_def party_rules_def first_violation_def report_def)

lemma purchases_validateForm_rules:
  "purchases_validateForm f = report (first_violation purchases_rules f)"
  by (simp add: purchases_validateForm_def purchases_rules_def first_violation_def report_def)

lemma ledger_validateForm_rules:
  "ledger_validateForm f = report (first_violation ledger_rules f)"
  by (simp add: ledger_validateForm_def ledger_rules_def first_violation_def report_def)

lemma report_at_most_one:
  "length (snd (report v)) \<le> 1 \<and> (fst (report v) \<longleftrightarrow> snd (report v) = [])"
  by (cases v) (simp_all add: report_def)

text \<open>
  C5. Each of the seven \<open>validateForm\<close> functions checks its rules in a fixed order and
  reports the first rule the form violates: its result is the report of the first violated
  rule of the page's list. So it sends at most one notification, and it returns true
  exactly when it sends none. A product form with an empty name and price 10 is rejected
  with the reason that the name is required, whatever its other fields are.
\<close>

theorem validateForm_first_violation:
  "products_validateForm pf = report (first_violation products_rules pf)
   \<and> saleItems_validateForm sf = report (first_violation saleItems_rules sf)
   \<and> purchaseItems_validateForm pif = report (first_violation purchaseItems_rules pif)
   \<and> customers_validateForm cf =
       report (first_violation (party_rules ''Customer name is required.'') cf)
   \<and> vendors_validateForm vf =
       report (first_violation (party_rules ''Vendor name is required.'') vf)
   \<and> purchases_validateForm puf = report (first_violation purchases_rules puf)
   \<and> ledger_validateForm lf = report (first_violation ledger_rules lf)
   \<and> length (snd (report v)) \<le> 1
   \<and> (fst (report v) \<longleftrightarrow> snd (report v) = [])
   \<and> products_validateForm
        \<lparr>product_form.name = Some [], product_form.category = c, product_form.quantity = q,
         product_form.price = Some (Num 10), product_form.min_stock = m\<rparr>
       = (False, [Toast_error ''Validation Error'' ''Product name is required.''])"
proof -
  have scenario: "products_validateForm
        \<lparr>product_form.name = Some [], product_form.category = c, product_form.quantity = q,
         product_form.price = Some (Num 10), product_form.min_stock = m\<rparr>
       = (False, [Toast_error ''Validation Error'' ''Product name is required.''])"
    by (simp add: products_validateForm_def falsy_str_def trim_def)
  show ?thesis
    using products_validateForm_rules saleItems_validateForm_rules
      purchaseItems_validateForm_rules customers_validateForm_rules
      vendors_validateForm_rules purchases_validateForm_rules ledger_validateForm_rules
      report_at_most_one [of v] scenario
    by (intro conjI) simp_all
qed

theorem validateForm_first_violation_witness:
  "first_violation products_rules
     \<lparr>product_form.name = Some [], product_form.category = None, product_form.quantity = None,
      product_form.price = Some (Num 10), product_form.min_stock = None\<rparr>
     = Some ''Product name is required.''
   \<and> products_validateForm
     \<lparr>product_form.name = Some ''Widget'', product_form.category = Some ''Tools'',
      product_form.quantity = Some (Num 5), product_form.price = Some (Num 10),
      product_form.min_stock = Some (Num 0)\<rparr> = (True, [])"
proof -
  have a: "first_violation products_rules
     \<lparr>product_form.name = Some [], product_form.category = None, product_form.quantity = None,
      product_form.price = Some (Num 10), product_form.min_stock = None\<rparr>
     = Some ''Product name is required.''"
    by (simp add: first_violation_def products_rules_def falsy_str_def trim_def)
  have b: "first_violation products_rules
     \<lparr>product_form.name = Some ''Widget'', product_form.category = Some ''Tools'',
      product_form.quantity = Some (Num 5), product_form.price = Some (Num 10),
      product_form.min_stock = Some (Num 0)\<rparr> = None"
    by code_simp
  have c: "products_validateForm
     \<lparr>product_form.name = Some ''Widget'', product_form.category = Some ''Tools'',
      product_form.quantity = Some (Num 5), product_form.price = Some (Num 10),
      product_form.min_stock = Some (Num 0)\<rparr> = report None"
    using validateForm_first_violation [of
        "\<lparr>product_form.name = Some ''Widget'', product_form.category = Some ''Tools'',
          product_form.quantity = Some (Num 5), product_form.price = Some (Num 10),
          product_form.min_stock = Some (Num 0)\<rparr>"]
    unfolding b by blast
  show ?thesis using a c by (simp add: report_def)
qed

section \<open>Ledger statistics\<close>

lemma whole_Num: "whole x \<Longrightarrow> x = Num (of_int (int_of x))"
  by (cases x) (simp_all add: whole_def int_of_def)

lemma js_add_int:
  "\<bar>a + b\<bar> < 2 ^ 53 \<Longrightarrow> js_add (Num (of_int a)) (Num (of_int b)) = Num (of_int (a + b))"
  using round_binary64_of_int [of "a + b"] by simp

lemma foldl_js_add_whole:
  "\<forall>x\<in>set xs. whole x \<Longrightarrow> \<bar>a\<bar> + (\<Sum>x\<leftarrow>xs. \<bar>int_of x\<bar>) < 2 ^ 53 \<Longrightarrow>
   foldl js_add (Num (of_int a)) xs = Num (of_int (a + (\<Sum>x\<leftarrow>xs. int_of x)))"
proof (induction xs arbitrary: a)
  case Nil
  then show ?case by simp
next
  case (Cons x xs)
  have x: "x = Num (of_int (int_of x))" using Cons.prems(1) by (simp add: whole_Num)
  have b: "\<bar>a + int_of x\<bar> < 2 ^ 53"
    using Cons.prems(2) sum_list_abs [of "map int_of xs"] by (simp add: comp_def)
  have step: "js_add (Num (of_int a)) x = Num (of_int (a + int_of x))"
    using js_add_int [OF b] x by simp
  have "foldl js_add (Num (of_int (a + int_of x))) xs =
      Num (of_int (a + int_of x + (\<Sum>x\<leftarrow>xs. int_of x)))"
    using Cons.prems by (intro Cons.IH) auto
  then show ?case using step by (simp add: add.assoc)
qed

lemma sum_abs_filter_le:
  fixes f :: "'a \<Rightarrow> int"
  shows "(\<Sum>x\<leftarrow>filter P xs. \<bar>f x\<bar>) \<le> (\<Sum>x\<leftarrow>xs. \<bar>f x\<bar>)"
  by (induction xs) auto

lemma sum_list_perm:
  fixes f :: "'a \<Rightarrow> int"
  assumes "mset xs = mset ys"
  shows "(\<Sum>x\<leftarrow>filter P xs. f x) = (\<Sum>x\<leftarrow>filter P ys. f x)"
proof -
  have "mset (map f (filter P xs)) = mset (map f (filter P ys))"
    using assms by simp
  then show ?thesis by (metis sum_mset_sum_list)
qed

lemma amount_sum_whole:
  assumes "\<forall>e\<in>set es. whole (ledger_entry.amount e)"
    and "(\<Sum>e\<leftarrow>es. \<bar>int_of (ledger_entry.amount e)\<bar>) < 2 ^ 53"
  shows "foldl (\<lambda>sum entry. js_add sum (ledger_entry.amount entry)) (Num 0) (filter P es) =
     Num (of_int (\<Sum>e\<leftarrow>filter P es. int_of (ledger_entry.amount e)))"
proof -
  let ?xs = "map ledger_entry.amount (filter P es)"
  have w: "\<forall>x\<in>set ?xs. whole x" using assms(1) by auto
  have "(\<Sum>x\<leftarrow>?xs. \<bar>int_of x\<bar>) \<le> (\<Sum>e\<leftarrow>es. \<bar>int_of (ledger_entry.amount e)\<bar>)"
    using sum_abs_filter_le [of "\<lambda>e. int_of (ledger_entry.amount e)" P es]
    by (simp add: comp_def)
  then have b: "\<bar>0\<bar> + (\<Sum>x\<leftarrow>?xs. \<bar>int_of x\<bar>) < 2 ^ 53" using assms(2) by simp
  have "foldl (\<lambda>sum entry. js_add sum (ledger_entry.amount entry)) (Num 0) (filter P es) =
      foldl js_add (Num (of_int 0)) ?xs"
    by (simp add: foldl_map)
  also have "\<dots> = Num (of_int (0 + (\<Sum>x\<leftarrow>?xs. int_of x)))"
    by (rule foldl_js_add_whole [OF w b])
  finally show ?thesis by (simp add: comp_def)
qed

lemma round_100: "round_binary64 100 = Num 100"
  using round_binary64_of_int [of 100] by simp

lemma round_150: "round_binary64 150 = Num 150"
  using round_binary64_of_int [of 150] by simp

lemma round_50: "round_binary64 50 = Num 50"
  using round_binary64_of_int [of 50] by simp

lemma value_of_whole: "whole x \<Longrightarrow> value_of x = of_int (int_of x)"
  by (cases x) (simp_all add: whole_def int_of_def value_of_def)

lemma sum_of_amounts_whole:
  "\<forall>e\<in>set es. whole (ledger_entry.amount e) \<Longrightarrow>
   sum_of_amounts t es =
     of_int (\<Sum>e\<leftarrow>filter (\<lambda>e. ledger_entry.transaction_type e = t) es.
        int_of (ledger_entry.amount e))"
  unfolding sum_of_amounts_def
  by (induction es) (simp_all add: value_of_whole)

lemma sum_abs_two_filters:
  fixes f :: "'a \<Rightarrow> int"
  assumes "\<And>x. \<not> (P x \<and> Q x)"
  shows "(\<Sum>x\<leftarrow>filter P xs. \<bar>f x\<bar>) + (\<Sum>x\<leftarrow>filter Q xs. \<bar>f x\<bar>) \<le> (\<Sum>x\<leftarrow>xs. \<bar>f x\<bar>)"
  using assms by (induction xs) auto

lemma js_sub_int:
  "\<bar>a - b\<bar> < 2 ^ 53 \<Longrightarrow> js_sub (Num (of_int a)) (Num (of_int b)) = Num (of_int (a - b))"
  using js_add_int [of a "- b"] by (simp add: js_sub_def)

lemma ledger_calculateStats_whole_sums:
  assumes w: "\<forall>e\<in>set es. whole (ledger_entry.amount e)"
    and b: "(\<Sum>e\<leftarrow>es. \<bar>int_of (ledger_entry.amount e)\<bar>) < 2 ^ 53"
  shows "ledger_calculateStats es =
     \<lparr>totalDebits = Num (sum_of_amounts ''debit'' es),
      totalCredits = Num (sum_of_amounts ''credit'' es),
      netBalance = Num (sum_of_amounts ''credit'' es - sum_of_amounts ''debit'' es)\<rparr>"
proof -
  let ?D = "\<lambda>e. ledger_entry.transaction_type e = ''debit''"
  let ?C = "\<lambda>e. ledger_entry.transaction_type e = ''credit''"
  let ?f = "\<lambda>e. int_of (ledger_entry.amount e)"
  let ?d = "\<Sum>e\<leftarrow>filter ?D es. ?f e"
  let ?c = "\<Sum>e\<leftarrow>filter ?C es. ?f e"
  have "\<bar>?c\<bar> \<le> (\<Sum>e\<leftarrow>filter ?C es. \<bar>?f e\<bar>)"
    using sum_list_abs [of "map ?f (filter ?C es)"] by (simp add: comp_def)
  moreover have "\<bar>?d\<bar> \<le> (\<Sum>e\<leftarrow>filter ?D es. \<bar>?f e\<bar>)"
    using sum_list_abs [of "map ?f (filter ?D es)"] by (simp add: comp_def)
  moreover have "(\<Sum>e\<leftarrow>filter ?C es. \<bar>?f e\<bar>) + (\<Sum>e\<leftarrow>filter ?D es. \<bar>?f e\<bar>)
      \<le> (\<Sum>e\<leftarrow>es. \<bar>?f e\<bar>)"
    by (rule sum_abs_two_filters) simp
  ultimately have n: "\<bar>?c - ?d\<bar> < 2 ^ 53" using b by linarith
  have d: "sum_of_amounts ''debit'' es = of_int ?d"
    by (rule sum_of_amounts_whole [OF w])
  have c: "sum_of_amounts ''credit'' es = of_int ?c"
    by (rule sum_of_amounts_whole [OF w])
  show ?thesis
    unfolding ledger_calculateStats_def Let_def amount_sum_whole [OF w b] d c
    by (simp add: js_sub_int [OF n])
qed

text \<open>
  The additions of \<open>0.1\<close>, \<open>0.2\<close> and \<open>0.3\<close> in the two orders, each rounded to binary64.
\<close>

lemma add_0_tenth: "js_add (Num 0) tenth = tenth"
  by code_simp

lemma add_tenth_fifth: "js_add tenth fifth = Num (1351079888211149 / 4503599627370496)"
  by code_simp

lemma add_sum_three_tenths:
  "js_add (Num (1351079888211149 / 4503599627370496)) three_tenths =
     Num (1351079888211149 / 2251799813685248)"
  by code_simp

lemma add_0_three_tenths: "js_add (Num 0) three_tenths = three_tenths"
  by code_simp

lemma add_three_tenths_fifth: "js_add three_tenths fifth = Num (1 / 2)"
  by code_simp

lemma add_half_tenth: "js_add (Num (1 / 2)) tenth = Num (5404319552844595 / 9007199254740992)"
  by code_simp

lemma decimal_literals:
  "round_binary64 (1 / 10) = tenth \<and> round_binary64 (2 / 10) = fifth
   \<and> round_binary64 (3 / 10) = three_tenths"
  by code_simp

lemma debits_tenth_fifth_three_tenths:
  "totalDebits (ledger_calculateStats
     [entry_of ''debit'' tenth, entry_of ''debit'' fifth, entry_of ''debit'' three_tenths])
   = Num (1351079888211149 / 2251799813685248)"
  by (simp add: ledger_calculateStats_def Let_def entry_of_def
      add_0_tenth add_tenth_fifth add_sum_three_tenths)

lemma sum_tenth_fifth_three_tenths:
  "sum_of_amounts ''debit''
     [entry_of ''debit'' tenth, entry_of ''debit'' fifth, entry_of ''debit'' three_tenths]
   = 21617278211378381 / 36028797018963968"
  by (simp add: sum_of_amounts_def entry_of_def value_of_def tenth_def fifth_def
      three_tenths_def)

lemma round_exact_sum:
  "round_binary64 (21617278211378381 / 36028797018963968)
     = Num (5404319552844595 / 9007199254740992)"
  by code_simp

text \<open>
  C2 as stated fails. \<open>reduce\<close> adds the amounts one after the other and every addition
  rounds to binary64, so the result need not be the sum of the amounts. For three debits of
  \<open>0.1\<close>, \<open>0.2\<close> and \<open>0.3\<close> \<open>totalDebits\<close> is \<open>0.6000000000000001\<close>; the sum of the three
  amounts is \<open>21617278211378381 / 2\<^sup>5\<^sup>5\<close>, which is no binary64 number and whose nearest
  binary64 number is \<open>0.6\<close>.
\<close>

theorem ledger_stats_sum_counterexample:
  "totalDebits (ledger_calculateStats
     [entry_of ''debit'' tenth, entry_of ''debit'' fifth, entry_of ''debit'' three_tenths])
     = Num (1351079888211149 / 2251799813685248)
   \<and> sum_of_amounts ''debit''
       [entry_of ''debit'' tenth, entry_of ''debit'' fifth, entry_of ''debit'' three_tenths]
     = 21617278211378381 / 36028797018963968
   \<and> round_binary64 (21617278211378381 / 36028797018963968)
     = Num (5404319552844595 / 9007199254740992)
   \<and> totalDebits (ledger_calculateStats
       [entry_of ''debit'' tenth, entry_of ''debit'' fifth, entry_of ''debit'' three_tenths])
     \<noteq> Num (sum_of_amounts ''debit''
       [entry_of ''debit'' tenth, entry_of ''debit'' fifth, entry_of ''debit'' three_tenths])
   \<and> totalDebits (ledger_calculateStats
       [entry_of ''debit'' tenth, entry_of ''debit'' fifth, entry_of ''debit'' three_tenths])
     \<noteq> round_binary64 (sum_of_amounts ''debit''
       [entry_of ''debit'' tenth, entry_of ''debit'' fifth, entry_of ''debit'' three_tenths])"
  unfolding debits_tenth_fifth_three_tenths sum_tenth_fifth_three_tenths round_exact_sum
  by simp

text \<open>
  C2, amended. When every amount is a whole number and the absolute values of the amounts
  add up to less than \<open>2\<^sup>5\<^sup>3\<close>, \<open>calculateStats\<close> of the ledger page returns as
  \<open>totalDebits\<close> the sum of the amounts of the entries whose transaction type is \<open>debit\<close>, as
  \<open>totalCredits\<close> the sum of the amounts of those whose type is \<open>credit\<close>, and as \<open>netBalance\<close>
  the second minus the first. For a debit of 100 and a credit of 150 the result is 100, 150
  and 50.
\<close>

theorem ledger_calculateStats_sums:
  "((\<forall>e\<in>set es. whole (ledger_entry.amount e))
      \<and> (\<Sum>e\<leftarrow>es. \<bar>int_of (ledger_entry.amount e)\<bar>) < 2 ^ 53 \<longrightarrow>
     ledger_calculateStats es =
       \<lparr>totalDebits = Num (sum_of_amounts ''debit'' es),
        totalCredits = Num (sum_of_amounts ''credit'' es),
        netBalance = Num (sum_of_amounts ''credit'' es - sum_of_amounts ''debit'' es)\<rparr>)
   \<and> ledger_calculateStats [entry_of ''debit'' (Num 100), entry_of ''credit'' (Num 150)] =
       \<lparr>totalDebits = Num 100, totalCredits = Num 150, netBalance = Num 50\<rparr>"
proof -
  have scenario:
    "ledger_calculateStats [entry_of ''debit'' (Num 100), entry_of ''credit'' (Num 150)] =
       \<lparr>totalDebits = Num 100, totalCredits = Num 150, netBalance = Num 50\<rparr>"
    by (simp add: ledger_calculateStats_def entry_of_def Let_def js_sub_def
        round_100 round_150 round_50)
  from ledger_calculateStats_whole_sums scenario show ?thesis by blast
qed

theorem ledger_calculateStats_sums_witness:
  "whole (ledger_entry.amount (entry_of ''debit'' (Num 100)))
   \<and> whole (ledger_entry.amount (entry_of ''credit'' (Num 150)))
   \<and> whole (ledger_entry.amount (entry_of ''debit'' (Num 50)))
   \<and> (\<Sum>e\<leftarrow>[entry_of ''debit'' (Num 100), entry_of ''credit'' (Num 150),
         entry_of ''debit'' (Num 50)]. \<bar>int_of (ledger_entry.amount e)\<bar>) < 2 ^ 53
   \<and> sum_of_amounts ''debit''
       [entry_of ''debit'' (Num 100), entry_of ''credit'' (Num 150), entry_of ''debit'' (Num 50)]
     = 150
   \<and> sum_of_amounts ''credit''
       [entry_of ''debit'' (Num 100), entry_of ''credit'' (Num 150), entry_of ''debit'' (Num 50)]
     = 150
   \<and> ledger_calculateStats
       [entry_of ''debit'' (Num 100), entry_of ''credit'' (Num 150), entry_of ''debit'' (Num 50)]
     = \<lparr>totalDebits = Num 150, totalCredits = Num 150, netBalance = Num 0\<rparr>"
proof -
  let ?es = "[entry_of ''debit'' (Num 100), entry_of ''credit'' (Num 150),
    entry_of ''debit'' (Num 50)]"
  have w: "\<forall>e\<in>set ?es. whole (ledger_entry.amount e)"
    by (simp add: entry_of_def whole_def)
  have b: "(\<Sum>e\<leftarrow>?es. \<bar>int_of (ledger_entry.amount e)\<bar>) < 2 ^ 53"
    by (simp add: entry_of_def int_of_def)
  have d: "sum_of_amounts ''debit'' ?es = 150"
    by (simp add: sum_of_amounts_def entry_of_def value_of_def)
  have c: "sum_of_amounts ''credit'' ?es = 150"
    by (simp add: sum_of_amounts_def entry_of_def value_of_def)
  have "ledger_calculateStats ?es =
       \<lparr>totalDebits = Num (sum_of_amounts ''debit'' ?es),
        totalCredits = Num (sum_of_amounts ''credit'' ?es),
        netBalance = Num (sum_of_amounts ''credit'' ?es - sum_of_amounts ''debit'' ?es)\<rparr>"
    using ledger_calculateStats_sums [of ?es] w b by blast
  then show ?thesis using w b d c by simp
qed

subsection \<open>The order of the entries\<close>

text \<open>
  C6 as stated fails. Three debits of 0.1, 0.2 and 0.3 add up to 0.6000000000000001 in this
  order and to 0.6 in the reverse order, because each addition rounds: the same entries in
  another order give another \<open>totalDebits\<close> and another \<open>netBalance\<close>.
\<close>

theorem ledger_stats_order_counterexample:
  "mset [entry_of ''debit'' three_tenths, entry_of ''debit'' fifth, entry_of ''debit'' tenth]
     = mset [entry_of ''debit'' tenth, entry_of ''debit'' fifth, entry_of ''debit'' three_tenths]
   \<and> totalDebits (ledger_calculateStats
        [entry_of ''debit'' tenth, entry_of ''debit'' fifth, entry_of ''debit'' three_tenths])
       = Num (1351079888211149 / 2251799813685248)
   \<and> totalDebits (ledger_calculateStats
        [entry_of ''debit'' three_tenths, entry_of ''debit'' fifth, entry_of ''debit'' tenth])
       = Num (5404319552844595 / 9007199254740992)
   \<and> ledger_calculateStats
        [entry_of ''debit'' three_tenths, entry_of ''debit'' fifth, entry_of ''debit'' tenth]
     \<noteq> ledger_calculateStats
        [entry_of ''debit'' tenth, entry_of ''debit'' fifth, entry_of ''debit'' three_tenths]"
proof -
  have a: "totalDebits (ledger_calculateStats
        [entry_of ''debit'' tenth, entry_of ''debit'' fifth, entry_of ''debit'' three_tenths])
       = Num (1351079888211149 / 2251799813685248)"
    by (simp add: ledger_calculateStats_def Let_def entry_of_def
        add_0_tenth add_tenth_fifth add_sum_three_tenths)
  have b: "totalDebits (ledger_calculateStats
        [entry_of ''debit'' three_tenths, entry_of ''debit'' fifth, entry_of ''debit'' tenth])
       = Num (5404319552844595 / 9007199254740992)"
    by (simp add: ledger_calculateStats_def Let_def entry_of_def
        add_0_three_tenths add_three_tenths_fifth add_half_tenth)
  have c: "Num (5404319552844595 / 9007199254740992) \<noteq> Num (1351079888211149 / 2251799813685248)"
    by simp
  have d: "mset [entry_of ''debit'' three_tenths, entry_of ''debit'' fifth, entry_of ''debit'' tenth]
     = mset [entry_of ''debit'' tenth, entry_of ''debit'' fifth, entry_of ''debit'' three_tenths]"
    by (simp add: add.commute add.left_commute)
  from a b c d show ?thesis by metis
qed

text \<open>
  C6, amended. When every amount is a whole number and the absolute values of the amounts
  add up to less than \<open>2\<^sup>5\<^sup>3\<close>, no addition rounds, and every permutation of the list
  of entries gives the same three statistics.
\<close>

theorem ledger_stats_permutation_whole:
  assumes "mset es' = mset es"
    and "\<forall>e\<in>set es. whole (ledger_entry.amount e)"
    and "(\<Sum>e\<leftarrow>es. \<bar>int_of (ledger_entry.amount e)\<bar>) < 2 ^ 53"
  shows "ledger_calculateStats es' = ledger_calculateStats es"
proof -
  have w': "\<forall>e\<in>set es'. whole (ledger_entry.amount e)"
    using assms(1,2) by (metis set_mset_mset)
  have "(\<Sum>e\<leftarrow>es'. \<bar>int_of (ledger_entry.amount e)\<bar>) =
      (\<Sum>e\<leftarrow>es. \<bar>int_of (ledger_entry.amount e)\<bar>)"
    using sum_list_perm [OF assms(1), where P = "\<lambda>_. True"
        and f = "\<lambda>e. \<bar>int_of (ledger_entry.amount e)\<bar>"] by simp
  then have b': "(\<Sum>e\<leftarrow>es'. \<bar>int_of (ledger_entry.amount e)\<bar>) < 2 ^ 53"
    using assms(3) by simp
  show ?thesis
    unfolding ledger_calculateStats_def Let_def
      amount_sum_whole [OF assms(2,3)] amount_sum_whole [OF w' b']
      sum_list_perm [OF assms(1)]
    by (rule refl)
qed

theorem ledger_stats_permutation_whole_witness:
  "mset [entry_of ''credit'' (Num 150), entry_of ''debit'' (Num 100)]
     = mset [entry_of ''debit'' (Num 100), entry_of ''credit'' (Num 150)]
   \<and> whole (ledger_entry.amount (entry_of ''debit'' (Num 100)))
   \<and> whole (ledger_entry.amount (entry_of ''credit'' (Num 150)))
   \<and> (\<Sum>e\<leftarrow>[entry_of ''debit'' (Num 100), entry_of ''credit'' (Num 150)].
         \<bar>int_of (ledger_entry.amount e)\<bar>) < 2 ^ 53
   \<and> ledger_calculateStats [entry_of ''credit'' (Num 150), entry_of ''debit'' (Num 100)]
     = ledger_calculateStats [entry_of ''debit'' (Num 100), entry_of ''credit'' (Num 150)]"
proof -
  have p: "mset [entry_of ''credit'' (Num 150), entry_of ''debit'' (Num 100)]
     = mset [entry_of ''debit'' (Num 100), entry_of ''credit'' (Num 150)]"
    by (simp add: add.commute)
  have w: "\<forall>e\<in>set [entry_of ''debit'' (Num 100), entry_of ''credit'' (Num 150)].
         whole (ledger_entry.amount e)"
    by (simp add: entry_of_def whole_def)
  have b: "(\<Sum>e\<leftarrow>[entry_of ''debit'' (Num 100), entry_of ''credit'' (Num 150)].
         \<bar>int_of (ledger_entry.amount e)\<bar>) < 2 ^ 53"
    by (simp add: entry_of_def int_of_def)
  have w2: "whole (ledger_entry.amount (entry_of ''debit'' (Num 100)))"
    "whole (ledger_entry.amount (entry_of ''credit'' (Num 150)))"
    using w by simp_all
  show ?thesis
    using p w2 b ledger_stats_permutation_whole [OF p w b] by blast
qed

section \<open>Statistics of the sale items and the purchase items\<close>



section \<open>The line total\<close>

lemma number_or_cases:
  "number_or x (Num 0) =
     (case x of None \<Rightarrow> Num 0 | Some n \<Rightarrow> if n = NaN then Num 0 else n)"
  by (cases x) (auto simp: number_or_def Number_def truthy_def)

lemma js_mul_zero_left:
  "p \<noteq> PosInf \<Longrightarrow> p \<noteq> NegInf \<Longrightarrow> p \<noteq> NaN \<Longrightarrow> js_mul (Num 0) p = Num 0"
  by (cases p) (simp_all add: round_binary64_def)

lemma saleItems_totalEffect_total:
  "saleItems_totalEffect f =
     f\<lparr>sale_item_form.total :=
         Some (js_mul (number_or (sale_item_form.quantity f) (Num 0))
                      (number_or (sale_item_form.price f) (Num 0)))\<rparr>"
  by (cases "sale_item_form.total f")
    (auto simp: saleItems_totalEffect_def Let_def js_strict_eq_def Number_def)

text \<open>
  The numbers of the form. \<open>quantity\<close> and \<open>price\<close> are written by the initial state and
  \<open>resetForm\<close> (1 and 0), by the two inputs of type \<open>number\<close>
  (\<open>Number(e.target.value) || 1\<close> and \<open>Number(e.target.value) || 0\<close>), by
  \<open>handleProductSelect\<close> (\<open>selectedProduct.price || 0\<close>) and by \<open>handleEdit\<close> (the fields of a
  stored row): amounts of money and counts, never an infinity. For an infinity, which none of
  them stores, the product with 0 is NaN:
\<close>

lemma line_total_infinite_price:
  "sale_item_form.total (saleItems_totalEffect (sale_form_of (Some (Num 0)) (Some PosInf)))
     = Some NaN"
  by (simp add: saleItems_totalEffect_total sale_form_of_def number_or_def Number_def truthy_def)

text \<open>
  C4. The effect sets the total of the form to the product of quantity and price, each
  replaced by 0 when it is missing or NaN, and leaves the other fields as they are. When the
  quantity is 0, missing or NaN, the total is 0 for every price the form can hold, that is
  every price that is not an infinity.
\<close>

theorem line_total_product:
  "saleItems_totalEffect f =
     f\<lparr>sale_item_form.total :=
         Some (js_mul (number_or (sale_item_form.quantity f) (Num 0))
                      (number_or (sale_item_form.price f) (Num 0)))\<rparr>
   \<and> number_or x (Num 0) =
       (case x of None \<Rightarrow> Num 0 | Some n \<Rightarrow> if n = NaN then Num 0 else n)
   \<and> (number_or (sale_item_form.quantity f) (Num 0) = Num 0
        \<and> sale_item_form.price f \<noteq> Some PosInf \<and> sale_item_form.price f \<noteq> Some NegInf
      \<longrightarrow> sale_item_form.total (saleItems_totalEffect f) = Some (Num 0))"
proof -
  have zero: "sale_item_form.total (saleItems_totalEffect f) = Some (Num 0)"
    if q: "number_or (sale_item_form.quantity f) (Num 0) = Num 0"
      and p: "sale_item_form.price f \<noteq> Some PosInf" "sale_item_form.price f \<noteq> Some NegInf"
  proof -
    have "number_or (sale_item_form.price f) (Num 0) \<noteq> PosInf"
      "number_or (sale_item_form.price f) (Num 0) \<noteq> NegInf"
      "number_or (sale_item_form.price f) (Num 0) \<noteq> NaN"
      using p by (auto simp: number_or_cases split: option.splits)
    then have "js_mul (Num 0) (number_or (sale_item_form.price f) (Num 0)) = Num 0"
      by (rule js_mul_zero_left)
    then show ?thesis by (simp add: saleItems_totalEffect_total q)
  qed
  show ?thesis
    using saleItems_totalEffect_total [of f] number_or_cases [of x] zero by blast
qed

theorem line_total_product_witness:
  "sale_item_form.total (saleItems_totalEffect (sale_form_of (Some (Num 0)) (Some (Num 25))))
     = Some (Num 0)
   \<and> sale_item_form.total (saleItems_totalEffect (sale_form_of (Some (Num 3)) (Some (Num 25))))
     = Some (Num 75)
   \<and> sale_item_form.total (saleItems_totalEffect (sale_form_of (Some NaN) None))
     = Some (Num 0)"
proof -
  have r: "round_binary64 75 = Num 75" using round_binary64_of_int [of 75] by simp
  have a: "sale_item_form.total
      (saleItems_totalEffect (sale_form_of (Some (Num 0)) (Some (Num 25)))) = Some (Num 0)"
  proof -
    have "number_or (sale_item_form.quantity (sale_form_of (Some (Num 0)) (Some (Num 25))))
        (Num 0) = Num 0
      \<and> sale_item_form.price (sale_form_of (Some (Num 0)) (Some (Num 25))) \<noteq> Some PosInf
      \<and> sale_item_form.price (sale_form_of (Some (Num 0)) (Some (Num 25))) \<noteq> Some NegInf"
      by (simp add: sale_form_of_def number_or_def Number_def truthy_def)
    then show ?thesis
      using line_total_product [where f = "sale_form_of (Some (Num 0)) (Some (Num 25))"]
      by blast
  qed
  have b: "sale_item_form.total
      (saleItems_totalEffect (sale_form_of (Some (Num 3)) (Some (Num 25)))) = Some (Num 75)"
  proof -
    have "saleItems_totalEffect (sale_form_of (Some (Num 3)) (Some (Num 25))) =
        (sale_form_of (Some (Num 3)) (Some (Num 25)))\<lparr>sale_item_form.total :=
          Some (js_mul
            (number_or (sale_item_form.quantity (sale_form_of (Some (Num 3)) (Some (Num 25))))
               (Num 0))
            (number_or (sale_item_form.price (sale_form_of (Some (Num 3)) (Some (Num 25))))
               (Num 0)))\<rparr>"
      using line_total_product [where f = "sale_form_of (Some (Num 3)) (Some (Num 25))"]
      by blast
    then show ?thesis
      by (simp add: sale_form_of_def number_or_def Number_def truthy_def r)
  qed
  have c: "sale_item_form.total
      (saleItems_totalEffect (sale_form_of (Some NaN) None)) = Some (Num 0)"
  proof -
    have "number_or (sale_item_form.quantity (sale_form_of (Some NaN) None)) (Num 0) = Num 0
      \<and> sale_item_form.price (sale_form_of (Some NaN) None) \<noteq> Some PosInf
      \<and> sale_item_form.price (sale_form_of (Some NaN) None) \<noteq> Some NegInf"
      by (simp add: sale_form_of_def number_or_def Number_def truthy_def)
    then show ?thesis
      using line_total_product [where f = "sale_form_of (Some NaN) None"]
      by blast
  qed
  from a b c show ?thesis by blast
qed

section \<open>The date filter of the purchases page\<close>

lemma purchases_search_filter:
  "purchases_search s ps = filter (purchase_matches_search s) ps"
  by (cases "trim s = []")
    (simp_all add: purchases_search_def purchase_matches_search_def [abs_def])

lemma purchases_status_filter:
  "purchases_status c ps = filter (purchase_matches_status c) ps"
  by (cases "c = ''all''")
    (simp_all add: purchases_status_def purchase_matches_status_def [abs_def])

lemma setMonth_cutoff: "setMonth h now (getMonth h now - 1) = month_cutoff h now"
  by (simp add: setMonth_def getMonth_def month_cutoff_def MakeDay_def MakeDate_def
      YearFromTime_def MonthFromTime_def DateFromTime_def Let_def split: prod.splits)

lemma purchases_date_month:
  "purchases_date h now ''month'' ps =
     filter (\<lambda>p. date_ge (Date_parse h (purchase.purchase_date p)) (month_cutoff h now)) ps"
  by (simp add: purchases_date_def setMonth_cutoff)

lemma filteredPurchases_month:
  "filteredPurchases h now ps s st ''month'' =
     filter (\<lambda>p. purchase_matches_search s p \<and> purchase_matches_status st p
                \<and> date_ge (Date_parse h (purchase.purchase_date p)) (month_cutoff h now)) ps"
  unfolding filteredPurchases_def purchases_date_month purchases_search_filter
    purchases_status_filter
  by (simp add: conj_ac)

text \<open>A calendar date is read in the same way by every host.\<close>

lemma parse_14_february: "Date_parse h ''2025-02-14'' = Some 1739491200000"
  by (simp add: Date_parse_def is_digit_def digits_val_def DaysInMonth_def MakeDay_def
      MakeDate_def days_from_civil_def msPerDay_def)

lemma parse_15_february: "Date_parse h ''2025-02-15'' = Some 1739577600000"
  by (simp add: Date_parse_def is_digit_def digits_val_def DaysInMonth_def MakeDay_def
      MakeDate_def days_from_civil_def msPerDay_def)

lemma parse_16_february: "Date_parse h ''2025-02-16'' = Some 1739664000000"
  by (simp add: Date_parse_def is_digit_def digits_val_def DaysInMonth_def MakeDay_def
      MakeDate_def days_from_civil_def msPerDay_def)

lemma parse_17_february: "Date_parse h ''2025-02-17'' = Some 1739750400000"
  by (simp add: Date_parse_def is_digit_def digits_val_def DaysInMonth_def MakeDay_def
      MakeDate_def days_from_civil_def msPerDay_def)

lemma parse_31_december: "Date_parse h ''2025-12-31'' = Some 1767139200000"
  by (simp add: Date_parse_def is_digit_def digits_val_def DaysInMonth_def MakeDay_def
      MakeDate_def days_from_civil_def msPerDay_def)

lemma cutoff_15_march: "month_cutoff utc_host noon_15_march_2025 = Some 1739620800000"
  by code_simp

lemma today_15_march: "toDateString utc_host (Some noon_15_march_2025) = Some (2025, 2, 15)"
  by code_simp

lemma cutoff_new_york: "month_cutoff new_york_2025 evening_15_march_2025 = Some 1739665800000"
  by code_simp

text \<open>
  At noon UTC on 31 March 2025 the day 31 counted from 1 February is 3 March: the cutoff is
  noon of 3 March, 28 days before now.
\<close>

lemma cutoff_31_march:
  "setMonth utc_host 1743422400000 (getMonth utc_host 1743422400000 - 1) = Some 1741003200000
   \<and> toDateString utc_host (Some 1743422400000) = Some (2025, 2, 31)
   \<and> toDateString utc_host (Some 1741003200000) = Some (2025, 2, 3)"
  by code_simp

text \<open>
  C3 as stated fails. At noon UTC on 15 March 2025, on a host whose zone is UTC, the
  \<open>month\<close> filter compares with noon of 15 February. A purchase dated 14 February lies
  within the 30 days before now and is not selected; a purchase dated 31 December 2025 does
  not lie within them and is selected.
\<close>

theorem month_filter_counterexample:
  "toDateString utc_host (Some noon_15_march_2025) = Some (2025, 2, 15)
   \<and> Date_parse utc_host ''2025-02-14'' = Some 1739491200000
   \<and> last_30_days noon_15_march_2025 1739491200000
   \<and> filteredPurchases utc_host noon_15_march_2025 [purchase_on ''2025-02-14''] []
        ''all'' ''month'' = []
   \<and> Date_parse utc_host ''2025-12-31'' = Some 1767139200000
   \<and> \<not> last_30_days noon_15_march_2025 1767139200000
   \<and> filteredPurchases utc_host noon_15_march_2025 [purchase_on ''2025-12-31''] []
        ''all'' ''month'' = [purchase_on ''2025-12-31'']"
proof -
  have a: "last_30_days noon_15_march_2025 1739491200000"
    by (simp add: last_30_days_def noon_15_march_2025_def msPerDay_def)
  have b: "filteredPurchases utc_host noon_15_march_2025 [purchase_on ''2025-02-14''] []
      ''all'' ''month'' = []"
    by (simp add: filteredPurchases_month date_ge_def parse_14_february cutoff_15_march
        purchase_on_def)
  have c: "\<not> last_30_days noon_15_march_2025 1767139200000"
    by (simp add: last_30_days_def noon_15_march_2025_def msPerDay_def)
  have d: "filteredPurchases utc_host noon_15_march_2025 [purchase_on ''2025-12-31''] []
      ''all'' ''month'' = [purchase_on ''2025-12-31'']"
    by (simp add: filteredPurchases_month date_ge_def parse_31_december cutoff_15_march
        purchase_on_def purchase_matches_search_def purchase_matches_status_def trim_def)
  from today_15_march parse_14_february [of utc_host] a b parse_31_december [of utc_host] c d
  show ?thesis by blast
qed

text \<open>
  C3, amended. With the date filter set to \<open>month\<close> (labelled Last Month), the page shows
  exactly the purchases that satisfy the search and the status filter and whose date is a
  valid date not earlier than the cutoff, in the order of the collection. The cutoff is what
  \<open>setMonth(getMonth() - 1)\<close> makes of now: the day of the month and the time of day that
  now has in local time, counted from the first day of the previous calendar month and
  taken back to UTC with the offset in force at that local time. There is no upper bound.
  This holds on every host, whatever its time zone and its reading of date strings.
\<close>

theorem month_filter_selection:
  "filteredPurchases h now ps s st ''month'' =
     filter (\<lambda>p. purchase_matches_search s p \<and> purchase_matches_status st p
                \<and> date_ge (Date_parse h (purchase.purchase_date p)) (month_cutoff h now)) ps
   \<and> setMonth h now (getMonth h now - 1) = month_cutoff h now"
  using filteredPurchases_month setMonth_cutoff by (rule conjI)

text \<open>
  In New York at 19:30 on 15 March 2025 (daylight time) the cutoff is 19:30 on 15 February
  (standard time), which is 00:30 UTC on 16 February: the purchase dated 16 February is
  dropped, the one dated 17 February is kept.
\<close>

theorem month_filter_selection_witness:
  "month_cutoff new_york_2025 evening_15_march_2025 = Some 1739665800000
   \<and> filteredPurchases new_york_2025 evening_15_march_2025
       [purchase_on ''2025-02-15'', purchase_on ''2025-02-16'', purchase_on ''2025-02-17'']
       [] ''all'' ''month''
     = [purchase_on ''2025-02-17'']"
proof -
  have "filteredPurchases new_york_2025 evening_15_march_2025
     [purchase_on ''2025-02-15'', purchase_on ''2025-02-16'', purchase_on ''2025-02-17'']
     [] ''all'' ''month''
     = filter (\<lambda>p. purchase_matches_search [] p \<and> purchase_matches_status ''all'' p
                \<and> date_ge (Date_parse new_york_2025 (purchase.purchase_date p))
                     (month_cutoff new_york_2025 evening_15_march_2025))
     [purchase_on ''2025-02-15'', purchase_on ''2025-02-16'', purchase_on ''2025-02-17'']"
    using month_filter_selection [of new_york_2025 evening_15_march_2025
        "[purchase_on ''2025-02-15'', purchase_on ''2025-02-16'', purchase_on ''2025-02-17'']"
        "[]" "''all''"]
    by (rule conjunct1)
  then show ?thesis
    by (simp add: date_ge_def parse_15_february parse_16_february parse_17_february
        cutoff_new_york purchase_on_def purchase_matches_search_def
        purchase_matches_status_def trim_def)
qed

section \<open>Errors of the persistence collaborator\<close>

lemma falsy_str_or_null: "falsy_str x \<Longrightarrow> str_or_null x = None"
  by (cases x) (simp_all add: falsy_str_def str_or_null_def)

lemma truthy_str_or_null: "x = Some e \<Longrightarrow> e \<noteq> [] \<Longrightarrow> str_or_null x = Some e"
  by (simp add: str_or_null_def)

lemma products_fetchProducts_error:
  assumes "user a = Some u" and "authError a = None"
  shows "error res_products = Some message \<longrightarrow>
      products_fetchProducts a res_products s_products =
        after_reported_error s_products (Toast_error ''Failed to Fetch Products'' message)
          (Select ''products'')"
  using assms by (simp add: products_fetchProducts_def after_reported_error_def Let_def issue_def send_toast_def auth_failed_def)

lemma products_handleSubmit_create_error:
  assumes "user a = Some u" and "authError a = None"
  shows "fst (products_validateForm (formData s_products)) \<and> falsy_str (editingId s_products) \<longrightarrow>
      products_handleSubmit a (Some message) a' next_products s_products =
        after_reported_error s_products (Toast_error ''Failed to Create Product'' message)
          (Insert ''products'' (products_productData u (formData s_products)))"
  using assms by (simp add: products_handleSubmit_def falsy_str_or_null after_reported_error_def Let_def issue_def send_toast_def auth_failed_def)

lemma products_handleSubmit_update_error:
  assumes "user a = Some u" and "authError a = None"
  shows "fst (products_validateForm (formData s_products)) \<and> editingId s_products = Some eid \<and> eid \<noteq> []
        \<longrightarrow>
      products_handleSubmit a (Some message) a' next_products s_products =
        after_reported_error s_products (Toast_error ''Failed to Update Product'' message)
          (Update ''products'' (products_productData u (formData s_products)) [(''id'', eid), (''user_id'', u)])"
  using assms by (simp add: products_handleSubmit_def truthy_str_or_null after_reported_error_def Let_def issue_def send_toast_def auth_failed_def)

lemma products_handleDelete_error:
  assumes "user a = Some u" and "authError a = None"
  shows "products_handleDelete i True a (Some message) a' next_products s_products =
        after_reported_error s_products (Toast_error ''Failed to Delete Product'' message)
          (Delete ''products'' [(''id'', i), (''user_id'', u)])"
  using assms by (simp add: products_handleDelete_def after_reported_error_def Let_def issue_def send_toast_def auth_failed_def)

lemma saleItems_fetchSaleItems_error:
  assumes "user a = Some u" and "authError a = None"
  shows "error res_saleItems = Some message \<longrightarrow>
      saleItems_fetchSaleItems a res_saleItems s_saleItems =
        after_reported_error s_saleItems (Toast_error ''Failed to Fetch Sale Items'' message)
          (Select ''sale_items'')"
  using assms by (simp add: saleItems_fetchSaleItems_def after_reported_error_def Let_def issue_def send_toast_def auth_failed_def)

lemma saleItems_fetchSales_error:
  assumes "user a = Some u" and "authError a = None"
  shows "error res_saleItems_sales = Some message \<longrightarrow>
      saleItems_fetchSales a res_saleItems_sales s_saleItems = after_silent_error s_saleItems (Select ''sales'')"
  using assms by (simp add: saleItems_fetchSales_def after_silent_error_def Let_def issue_def auth_failed_def)

lemma saleItems_fetchProducts_error:
  assumes "user a = Some u" and "authError a = None"
  shows "error res_saleItems_products = Some message \<longrightarrow>
      saleItems_fetchProducts a res_saleItems_products s_saleItems = after_silent_error s_saleItems (Select ''products'')"
  using assms by (simp add: saleItems_fetchProducts_def after_silent_error_def Let_def issue_def auth_failed_def)

lemma saleItems_handleSubmit_create_error:
  assumes "user a = Some u" and "authError a = None"
  shows "fst (saleItems_validateForm (formData s_saleItems)) \<and> falsy_str (editingId s_saleItems) \<longrightarrow>
      saleItems_handleSubmit a (Some message) a' next_saleItems s_saleItems =
        after_reported_error s_saleItems (Toast_error ''Failed to Create Sale Item'' message)
          (Insert ''sale_items'' (saleItems_itemData (formData s_saleItems)))"
  using assms by (simp add: saleItems_handleSubmit_def falsy_str_or_null after_reported_error_def Let_def issue_def send_toast_def auth_failed_def)

lemma saleItems_handleSubmit_update_error:
  assumes "user a = Some u" and "authError a = None"
  shows "fst (saleItems_validateForm (formData s_saleItems)) \<and> editingId s_saleItems = Some eid \<and> eid \<noteq> []
        \<longrightarrow>
      saleItems_handleSubmit a (Some message) a' next_saleItems s_saleItems =
        after_reported_error s_saleItems (Toast_error ''Failed to Update Sale Item'' message)
          (Update ''sale_items'' (saleItems_itemData (formData s_saleItems)) [(''id'', eid)])"
  using assms by (simp add: saleItems_handleSubmit_def truthy_str_or_null after_reported_error_def Let_def issue_def send_toast_def auth_failed_def)

lemma saleItems_handleDelete_error:
  assumes "user a = Some u" and "authError a = None"
  shows "saleItems_handleDelete i True a (Some message) a' next_saleItems s_saleItems =
        after_reported_error s_saleItems (Toast_error ''Failed to Delete Sale Item'' message)
          (Delete ''sale_items'' [(''id'', i)])"
  using assms by (simp add: saleItems_handleDelete_def after_reported_error_def Let_def issue_def send_toast_def auth_failed_def)

lemma purchaseItems_fetchPurchaseItems_error:
  assumes "user a = Some u" and "authError a = None"
  shows "error res_purchaseItems = Some message \<longrightarrow>
      purchaseItems_fetchPurchaseItems a res_purchaseItems s_purchaseItems =
        after_reported_error s_purchaseItems (Toast_error ''Failed to Fetch Purchase Items'' message)
          (Select ''purchase_items'')"
  using assms by (simp add: purchaseItems_fetchPurchaseItems_def after_reported_error_def Let_def issue_def send_toast_def auth_failed_def)

lemma purchaseItems_fetchPurchases_error:
  assumes "user a = Some u" and "authError a = None"
  shows "error res_purchaseItems_purchases = Some message \<longrightarrow>
      purchaseItems_fetchPurchases a res_purchaseItems_purchases s_purchaseItems = after_silent_error s_purchaseItems (Select ''purchases'')"
  using assms by (simp add: purchaseItems_fetchPurchases_def after_silent_error_def Let_def issue_def auth_failed_def)

lemma purchaseItems_fetchProducts_error:
  assumes "user a = Some u" and "authError a = None"
  shows "error res_purchaseItems_products = Some message \<longrightarrow>
      purchaseItems_fetchProducts a res_purchaseItems_products s_purchaseItems = after_silent_error s_purchaseItems (Select ''products'')"
  using assms by (simp add: purchaseItems_fetchProducts_def after_silent_error_def Let_def issue_def auth_failed_def)

lemma purchaseItems_handleSubmit_create_error:
  assumes "user a = Some u" and "authError a = None"
  shows "fst (purchaseItems_validateForm (formData s_purchaseItems)) \<and> falsy_str (editingId s_purchaseItems) \<longrightarrow>
      purchaseItems_handleSubmit a (Some message) a' next_purchaseItems s_purchaseItems =
        after_reported_error s_purchaseItems (Toast_error ''Failed to Create Purchase Item'' message)
          (Insert ''purchase_items'' (purchaseItems_itemData (formData s_purchaseItems)))"
  using assms by (simp add: purchaseItems_handleSubmit_def falsy_str_or_null after_reported_error_def Let_def issue_def send_toast_def auth_failed_def)

lemma purchaseItems_handleSubmit_update_error:
  assumes "user a = Some u" and "authError a = None"
  shows "fst (purchaseItems_validateForm (formData s_purchaseItems)) \<and> editingId s_purchaseItems = Some eid \<and> eid \<noteq> []
        \<longrightarrow>
      purchaseItems_handleSubmit a (Some message) a' next_purchaseItems s_purchaseItems =
        after_reported_error s_purchaseItems (Toast_error ''Failed to Update Purchase Item'' message)
          (Update ''purchase_items'' (purchaseItems_itemData (formData s_purchaseItems)) [(''id'', eid)])"
  using assms by (simp add: purchaseItems_handleSubmit_def truthy_str_or_null after_reported_error_def Let_def issue_def send_toast_def auth_failed_def)

lemma purchaseItems_handleDelete_error:
  assumes "user a = Some u" and "authError a = None"
  shows "purchaseItems_handleDelete i True a (Some message) a' next_purchaseItems s_purchaseItems =
        after_reported_error s_purchaseItems (Toast_error ''Failed to Delete Purchase Item'' message)
          (Delete ''purchase_items'' [(''id'', i)])"
  using assms by (simp add: purchaseItems_handleDelete_def after_reported_error_def Let_def issue_def send_toast_def auth_failed_def)

lemma vendors_fetchVendors_error:
  assumes "user a = Some u" and "authError a = None"
  shows "error res_vendors = Some message \<longrightarrow>
      vendors_fetchVendors a res_vendors s_vendors =
        after_reported_error s_vendors (Toast_error ''Failed to Fetch Vendors'' message)
          (Select ''vendors'')"
  using assms by (simp add: vendors_fetchVendors_def after_reported_error_def Let_def issue_def send_toast_def auth_failed_def)

lemma vendors_handleSubmit_create_error:
  assumes "user a = Some u" and "authError a = None"
  shows "fst (vendors_validateForm (formData s_vendors)) \<and> falsy_str (editingId s_vendors) \<longrightarrow>
      vendors_handleSubmit a (Some message) a' next_vendors s_vendors =
        after_reported_error s_vendors (Toast_error ''Failed to Create Vendor'' message)
          (Insert ''vendors'' (vendors_vendorData u (formData s_vendors)))"
  using assms by (simp add: vendors_handleSubmit_def falsy_str_or_null after_reported_error_def Let_def issue_def send_toast_def auth_failed_def)

lemma vendors_handleSubmit_update_error:
  assumes "user a = Some u" and "authError a = None"
  shows "fst (vendors_validateForm (formData s_vendors)) \<and> editingId s_vendors = Some eid \<and> eid \<noteq> []
        \<longrightarrow>
      vendors_handleSubmit a (Some message) a' next_vendors s_vendors =
        after_reported_error s_vendors (Toast_error ''Failed to Update Vendor'' message)
          (Update ''vendors'' (vendors_vendorData u (formData s_vendors)) [(''id'', eid), (''user_id'', u)])"
  using assms by (simp add: vendors_handleSubmit_def truthy_str_or_null after_reported_error_def Let_def issue_def send_toast_def auth_failed_def)

lemma vendors_handleDelete_error:
  assumes "user a = Some u" and "authError a = None"
  shows "vendors_handleDelete i True a (Some message) a' next_vendors s_vendors =
        after_reported_error s_vendors (Toast_error ''Failed to Delete Vendor'' message)
          (Delete ''vendors'' [(''id'', i), (''user_id'', u)])"
  using assms by (simp add: vendors_handleDelete_def after_reported_error_def Let_def issue_def send_toast_def auth_failed_def)

lemma customers_fetchCustomers_error:
  assumes "user a = Some u" and "authError a = None"
  shows "error res_customers = Some message \<longrightarrow>
      customers_fetchCustomers a res_customers s_customers =
        after_reported_error s_customers (Toast_error ''Failed to Fetch Customers'' message)
          (Select ''customers'')"
  using assms by (simp add: customers_fetchCustomers_def after_reported_error_def Let_def issue_def send_toast_def auth_failed_def)

lemma customers_handleSubmit_create_error:
  assumes "user a = Some u" and "authError a = None"
  shows "fst (customers_validateForm (formData s_customers)) \<and> falsy_str (editingId s_customers) \<longrightarrow>
      customers_handleSubmit a (Some message) a' next_customers s_customers =
        after_reported_error s_customers (Toast_error ''Failed to Create Customer'' message)
          (Insert ''customers'' (customers_customerData u (formData s_customers)))"
  using assms by (simp add: customers_handleSubmit_def falsy_str_or_null after_reported_error_def Let_def issue_def send_toast_def auth_failed_def)

lemma customers_handleSubmit_update_error:
  assumes "user a = Some u" and "authError a = None"
  shows "fst (customers_validateForm (formData s_customers)) \<and> editingId s_customers = Some eid \<and> eid \<noteq> []
        \<longrightarrow>
      customers_handleSubmit a (Some message) a' next_customers s_customers =
        after_reported_error s_customers (Toast_error ''Failed to Update Customer'' message)
          (Update ''customers'' (customers_customerData u (formData s_customers)) [(''id'', eid), (''user_id'', u)])"
  using assms by (simp add: customers_handleSubmit_def truthy_str_or_null after_reported_error_def Let_def issue_def send_toast_def auth_failed_def)

lemma customers_handleDelete_error:
  assumes "user a = Some u" and "authError a = None"
  shows "customers_handleDelete i True a (Some message) a' next_customers s_customers =
        after_reported_error s_customers (Toast_error ''Failed to Delete Customer'' message)
          (Delete ''customers'' [(''id'', i), (''user_id'', u)])"
  using assms by (simp add: customers_handleDelete_def after_reported_error_def Let_def issue_def send_toast_def auth_failed_def)

lemma purchases_fetchPurchases_error:
  assumes "user a = Some u" and "authError a = None"
  shows "error res_purchases = Some message \<longrightarrow>
      purchases_fetchPurchases a res_purchases s_purchases =
        after_reported_error s_purchases (Toast_error ''Failed to Fetch Purchases'' message)
          (Select ''purchases'')"
  using assms by (simp add: purchases_fetchPurchases_def after_reported_error_def Let_def issue_def send_toast_def auth_failed_def)

lemma purchases_fetchVendors_error:
  assumes "user a = Some u" and "authError a = None"
  shows "error res_purchases_vendors = Some message \<longrightarrow>
      purchases_fetchVendors a res_purchases_vendors s_purchases = after_silent_error s_purchases (Select ''vendors'')"
  using assms by (simp add: purchases_fetchVendors_def after_silent_error_def Let_def issue_def auth_failed_def)

lemma purchases_handleSubmit_create_error:
  assumes "user a = Some u" and "authError a = None"
  shows "fst (purchases_validateForm (formData s_purchases)) \<and> falsy_str (editingId s_purchases) \<longrightarrow>
      purchases_handleSubmit today a (Some message) a' next_purchases s_purchases =
        after_reported_error s_purchases (Toast_error ''Failed to Create Purchase'' message)
          (Insert ''purchases'' (purchases_purchaseData u (formData s_purchases)))"
  using assms by (simp add: purchases_handleSubmit_def falsy_str_or_null after_reported_error_def Let_def issue_def send_toast_def auth_failed_def)

lemma purchases_handleSubmit_update_error:
  assumes "user a = Some u" and "authError a = None"
  shows "fst (purchases_validateForm (formData s_purchases)) \<and> editingId s_purchases = Some eid \<and> eid \<noteq> []
        \<longrightarrow>
      purchases_handleSubmit today a (Some message) a' next_purchases s_purchases =
        after_reported_error s_purchases (Toast_error ''Failed to Update Purchase'' message)
          (Update ''purchases'' (purchases_purchaseData u (formData s_purchases)) [(''id'', eid), (''user_id'', u)])"
  using assms by (simp add: purchases_handleSubmit_def truthy_str_or_null after_reported_error_def Let_def issue_def send_toast_def auth_failed_def)

lemma purchases_handleDelete_error:
  assumes "user a = Some u" and "authError a = None"
  shows "purchases_handleDelete i True a (Some message) a' next_purchases s_purchases =
        after_reported_error s_purchases (Toast_error ''Failed to Delete Purchase'' message)
          (Delete ''purchases'' [(''id'', i), (''user_id'', u)])"
  using assms by (simp add: purchases_handleDelete_def after_reported_error_def Let_def issue_def send_toast_def auth_failed_def)

lemma ledger_fetchLedgerEntries_error:
  assumes "user a = Some u" and "authError a = None"
  shows "error res_ledger = Some message \<longrightarrow>
      ledger_fetchLedgerEntries a res_ledger s_ledger =
        after_reported_error s_ledger (Toast_error ''Failed to Fetch Ledger Entries'' message)
          (Select ''ledger_entries'')"
  using assms by (simp add: ledger_fetchLedgerEntries_def after_reported_error_def Let_def issue_def send_toast_def auth_failed_def)

lemma ledger_fetchCustomers_error:
  assumes "user a = Some u" and "authError a = None"
  shows "error res_ledger_customers = Some message \<longrightarrow>
      ledger_fetchCustomers a res_ledger_customers s_ledger = after_silent_error s_ledger (Select ''customers'')"
  using assms by (simp add: ledger_fetchCustomers_def after_silent_error_def Let_def issue_def auth_failed_def)

lemma ledger_fetchVendors_error:
  assumes "user a = Some u" and "authError a = None"
  shows "error res_ledger_vendors = Some message \<longrightarrow>
      ledger_fetchVendors a res_ledger_vendors s_ledger = after_silent_error s_ledger (Select ''vendors'')"
  using assms by (simp add: ledger_fetchVendors_def after_silent_error_def Let_def issue_def auth_failed_def)

lemma ledger_handleSubmit_create_error:
  assumes "user a = Some u" and "authError a = None"
  shows "fst (ledger_validateForm (formData s_ledger)) \<and> falsy_str (editingId s_ledger) \<longrightarrow>
      ledger_handleSubmit a (Some message) a' next_ledger s_ledger =
        after_reported_error s_ledger (Toast_error ''Failed to Create Ledger Entry'' message)
          (Insert ''ledger_entries'' (ledger_entryData u (formData s_ledger)))"
  using assms by (simp add: ledger_handleSubmit_def falsy_str_or_null after_reported_error_def Let_def issue_def send_toast_def auth_failed_def)

lemma ledger_handleSubmit_update_error:
  assumes "user a = Some u" and "authError a = None"
  shows "fst (ledger_validateForm (formData s_ledger)) \<and> editingId s_ledger = Some eid \<and> eid \<noteq> []
        \<longrightarrow>
      ledger_handleSubmit a (Some message) a' next_ledger s_ledger =
        after_reported_error s_ledger (Toast_error ''Failed to Update Ledger Entry'' message)
          (Update ''ledger_entries'' (ledger_entryData u (formData s_ledger)) [(''id'', eid), (''user_id'', u)])"
  using assms by (simp add: ledger_handleSubmit_def truthy_str_or_null after_reported_error_def Let_def issue_def send_toast_def auth_failed_def)

lemma ledger_handleDelete_error:
  assumes "user a = Some u" and "authError a = None"
  shows "ledger_handleDelete i True a (Some message) a' next_ledger s_ledger =
        after_reported_error s_ledger (Toast_error ''Failed to Delete Ledger Entry'' message)
          (Delete ''ledger_entries'' [(''id'', i), (''user_id'', u)])"
  using assms by (simp add: ledger_handleDelete_def after_reported_error_def Let_def issue_def send_toast_def auth_failed_def)

text \<open>
  With the empty string as \<open>editingId\<close> a submission creates: \<open>if (editingId)\<close> is false.
\<close>

lemma ledger_handleSubmit_empty_editingId:
  "ledger_handleSubmit signed_in (Some ''timeout'') signed_in \<lparr>data = None, error = None\<rparr>
     (example_page\<lparr>editingId := Some []\<rparr>) =
   example_page\<lparr>editingId := Some [],
     toasts := [Toast_error ''Failed to Create Ledger Entry'' ''timeout''],
     calls := [Auth_getUser,
       Insert ''ledger_entries'' (ledger_entryData ''u1'' (formData example_page))]\<rparr>"
proof -
  have v: "fst (ledger_validateForm (formData (example_page\<lparr>editingId := Some []\<rparr>)))"
    by code_simp
  have e: "falsy_str (editingId (example_page\<lparr>editingId := Some []\<rparr>))"
    by (simp add: falsy_str_def)
  have "ledger_handleSubmit signed_in (Some ''timeout'') signed_in
      \<lparr>data = None, error = None\<rparr> (example_page\<lparr>editingId := Some []\<rparr>) =
    after_reported_error (example_page\<lparr>editingId := Some []\<rparr>)
      (Toast_error ''Failed to Create Ledger Entry'' ''timeout'')
      (Insert ''ledger_entries''
         (ledger_entryData ''u1'' (formData (example_page\<lparr>editingId := Some []\<rparr>))))"
    using ledger_handleSubmit_create_error [of signed_in "''u1''"
        "example_page\<lparr>editingId := Some []\<rparr>" "''timeout''" signed_in
        "\<lparr>data = None, error = None\<rparr>"] v e
    by (simp add: signed_in_def)
  then show ?thesis
    by (simp add: after_reported_error_def example_page_def)
qed

text \<open>
  C8 as stated fails. The fetches that fill the selection lists drop the error: when the
  collaborator answers \<open>fetchCustomers\<close> of the ledger page with an error, the lists and the
  form stay as they were and the call is not repeated, but no notification is sent.
\<close>

theorem silent_fetch_counterexample:
  "error \<lparr>data = (None :: party list option), error = Some ''timeout''\<rparr> = Some ''timeout''
   \<and> ledger_fetchCustomers signed_in \<lparr>data = None, error = Some ''timeout''\<rparr> example_page
     = example_page\<lparr>calls := [Auth_getUser, Select ''customers'']\<rparr>
   \<and> toasts (ledger_fetchCustomers signed_in \<lparr>data = None, error = Some ''timeout''\<rparr>
        example_page) = toasts example_page
   \<and> toasts example_page = []"
  by (simp add: ledger_fetchCustomers_def Let_def issue_def auth_failed_def signed_in_def
      example_page_def)

text \<open>
  C8, amended. On each of the seven pages, when the user is signed in and the persistence
  collaborator answers an operation with an error, the lists of records, the form and the
  edited id are left as they were, and the collaborator has been called once for the user and
  once for the operation: no second attempt and no refetch. The fetch of the page's own
  list, the creation and the update of a valid form and the deletion send one error
  notification that carries the message of the error, and end with \<open>loading\<close> false. The
  fetches that fill the selection lists (sales and products, purchases and products,
  vendors, customers and vendors) send no notification. A creation is a submission while
  \<open>editingId\<close> is \<open>null\<close> or empty, an update one while it is a non-empty id.
\<close>

theorem persistence_error_outcome:
  assumes "user a = Some u" and "authError a = None"
  shows "(error res_products = Some message \<longrightarrow>
      products_fetchProducts a res_products s_products =
        after_reported_error s_products (Toast_error ''Failed to Fetch Products'' message)
          (Select ''products''))
   \<and> (fst (products_validateForm (formData s_products)) \<and> falsy_str (editingId s_products) \<longrightarrow>
      products_handleSubmit a (Some message) a' next_products s_products =
        after_reported_error s_products (Toast_error ''Failed to Create Product'' message)
          (Insert ''products'' (products_productData u (formData s_products))))
   \<and> (fst (products_validateForm (formData s_products)) \<and> editingId s_products = Some eid \<and> eid \<noteq> []
        \<longrightarrow>
      products_handleSubmit a (Some message) a' next_products s_products =
        after_reported_error s_products (Toast_error ''Failed to Update Product'' message)
          (Update ''products'' (products_productData u (formData s_products)) [(''id'', eid), (''user_id'', u)]))
   \<and> products_handleDelete i True a (Some message) a' next_products s_products =
        after_reported_error s_products (Toast_error ''Failed to Delete Product'' message)
          (Delete ''products'' [(''id'', i), (''user_id'', u)])
   \<and> (error res_saleItems = Some message \<longrightarrow>
      saleItems_fetchSaleItems a res_saleItems s_saleItems =
        after_reported_error s_saleItems (Toast_error ''Failed to Fetch Sale Items'' message)
          (Select ''sale_items''))
   \<and> (error res_saleItems_sales = Some message \<longrightarrow>
      saleItems_fetchSales a res_saleItems_sales s_saleItems = after_silent_error s_saleItems (Select ''sales''))
   \<and> (error res_saleItems_products = Some message \<longrightarrow>
      saleItems_fetchProducts a res_saleItems_products s_saleItems = after_silent_error s_saleItems (Select ''products''))
   \<and> (fst (saleItems_validateForm (formData s_saleItems)) \<and> falsy_str (editingId s_saleItems) \<longrightarrow>
      saleItems_handleSubmit a (Some message) a' next_saleItems s_saleItems =
        after_reported_error s_saleItems (Toast_error ''Failed to Create Sale Item'' message)
          (Insert ''sale_items'' (saleItems_itemData (formData s_saleItems))))
   \<and> (fst (saleItems_validateForm (formData s_saleItems)) \<and> editingId s_saleItems = Some eid \<and> eid \<noteq> []
        \<longrightarrow>
      saleItems_handleSubmit a (Some message) a' next_saleItems s_saleItems =
        after_reported_error s_saleItems (Toast_error ''Failed to Update Sale Item'' message)
          (Update ''sale_items'' (saleItems_itemData (formData s_saleItems)) [(''id'', eid)]))
   \<and> saleItems_handleDelete i True a (Some message) a' next_saleItems s_saleItems =
        after_reported_error s_saleItems (Toast_error ''Failed to Delete Sale Item'' message)
          (Delete ''sale_items'' [(''id'', i)])
   \<and> (error res_purchaseItems = Some message \<longrightarrow>
      purchaseItems_fetchPurchaseItems a res_purchaseItems s_purchaseItems =
        after_reported_error s_purchaseItems (Toast_error ''Failed to Fetch Purchase Items'' message)
          (Select ''purchase_items''))
   \<and> (error res_purchaseItems_purchases = Some message \<longrightarrow>
      purchaseItems_fetchPurchases a res_purchaseItems_purchases s_purchaseItems = after_silent_error s_purchaseItems (Select ''purchases''))
   \<and> (error res_purchaseItems_products = Some message \<longrightarrow>
      purchaseItems_fetchProducts a res_purchaseItems_products s_purchaseItems = after_silent_error s_purchaseItems (Select ''products''))
   \<and> (fst (purchaseItems_validateForm (formData s_purchaseItems)) \<and> falsy_str (editingId s_purchaseItems) \<longrightarrow>
      purchaseItems_handleSubmit a (Some message) a' next_purchaseItems s_purchaseItems =
        after_reported_error s_purchaseItems (Toast_error ''Failed to Create Purchase Item'' message)
          (Insert ''purchase_items'' (purchaseItems_itemData (formData s_purchaseItems))))
   \<and> (fst (purchaseItems_validateForm (formData s_purchaseItems)) \<and> editingId s_purchaseItems = Some eid \<and> eid \<noteq> []
        \<longrightarrow>
      purchaseItems_handleSubmit a (Some message) a' next_purchaseItems s_purchaseItems =
        after_reported_error s_purchaseItems (Toast_error ''Failed to Update Purchase Item'' message)
          (Update ''purchase_items'' (purchaseItems_itemData (formData s_purchaseItems)) [(''id'', eid)]))
   \<and> purchaseItems_handleDelete i True a (Some message) a' next_purchaseItems s_purchaseItems =
        after_reported_error s_purchaseItems (Toast_error ''Failed to Delete Purchase Item'' message)
          (Delete ''purchase_items'' [(''id'', i)])
   \<and> (error res_vendors = Some message \<longrightarrow>
      vendors_fetchVendors a res_vendors s_vendors =
        after_reported_error s_vendors (Toast_error ''Failed to Fetch Vendors'' message)
          (Select ''vendors''))
   \<and> (fst (vendors_validateForm (formData s_vendors)) \<and> falsy_str (editingId s_vendors) \<longrightarrow>
      vendors_handleSubmit a (Some message) a' next_vendors s_vendors =
        after_reported_error s_vendors (Toast_error ''Failed to Create Vendor'' message)
          (Insert ''vendors'' (vendors_vendorData u (formData s_vendors))))
   \<and> (fst (vendors_validateForm (formData s_vendors)) \<and> editingId s_vendors = Some eid \<and> eid \<noteq> []
        \<longrightarrow>
      vendors_handleSubmit a (Some message) a' next_vendors s_vendors =
        after_reported_error s_vendors (Toast_error ''Failed to Update Vendor'' message)
          (Update ''vendors'' (vendors_vendorData u (formData s_vendors)) [(''id'', eid), (''user_id'', u)]))
   \<and> vendors_handleDelete i True a (Some message) a' next_vendors s_vendors =
        after_reported_error s_vendors (Toast_error ''Failed to Delete Vendor'' message)
          (Delete ''vendors'' [(''id'', i), (''user_id'', u)])
   \<and> (error res_customers = Some message \<longrightarrow>
      customers_fetchCustomers a res_customers s_customers =
        after_reported_error s_customers (Toast_error ''Failed to Fetch Customers'' message)
          (Select ''customers''))
   \<and> (fst (customers_validateForm (formData s_customers)) \<and> falsy_str (editingId s_customers) \<longrightarrow>
      customers_handleSubmit a (Some message) a' next_customers s_customers =
        after_reported_error s_customers (Toast_error ''Failed to Create Customer'' message)
          (Insert ''customers'' (customers_customerData u (formData s_customers))))
   \<and> (fst (customers_validateForm (formData s_customers)) \<and> editingId s_customers = Some eid \<and> eid \<noteq> []
        \<longrightarrow>
      customers_handleSubmit a (Some message) a' next_customers s_customers =
        after_reported_error s_customers (Toast_error ''Failed to Update Customer'' message)
          (Update ''customers'' (customers_customerData u (formData s_customers)) [(''id'', eid), (''user_id'', u)]))
   \<and> customers_handleDelete i True a (Some message) a' next_customers s_customers =
        after_reported_error s_customers (Toast_error ''Failed to Delete Customer'' message)
          (Delete ''customers'' [(''id'', i), (''user_id'', u)])
   \<and> (error res_purchases = Some message \<longrightarrow>
      purchases_fetchPurchases a res_purchases s_purchases =
        after_reported_error s_purchases (Toast_error ''Failed to Fetch Purchases'' message)
          (Select ''purchases''))
   \<and> (error res_purchases_vendors = Some message \<longrightarrow>
      purchases_fetchVendors a res_purchases_vendors s_purchases = after_silent_error s_purchases (Select ''vendors''))
   \<and> (fst (purchases_validateForm (formData s_purchases)) \<and> falsy_str (editingId s_purchases) \<longrightarrow>
      purchases_handleSubmit today a (Some message) a' next_purchases s_purchases =
        after_reported_error s_purchases (Toast_error ''Failed to Create Purchase'' message)
          (Insert ''purchases'' (purchases_purchaseData u (formData s_purchases))))
   \<and> (fst (purchases_validateForm (formData s_purchases)) \<and> editingId s_purchases = Some eid \<and> eid \<noteq> []
        \<longrightarrow>
      purchases_handleSubmit today a (Some message) a' next_purchases s_purchases =
        after_reported_error s_purchases (Toast_error ''Failed to Update Purchase'' message)
          (Update ''purchases'' (purchases_purchaseData u (formData s_purchases)) [(''id'', eid), (''user_id'', u)]))
   \<and> purchases_handleDelete i True a (Some message) a' next_purchases s_purchases =
        after_reported_error s_purchases (Toast_error ''Failed to Delete Purchase'' message)
          (Delete ''purchases'' [(''id'', i), (''user_id'', u)])
   \<and> (error res_ledger = Some message \<longrightarrow>
      ledger_fetchLedgerEntries a res_ledger s_ledger =
        after_reported_error s_ledger (Toast_error ''Failed to Fetch Ledger Entries'' message)
          (Select ''ledger_entries''))
   \<and> (error res_ledger_customers = Some message \<longrightarrow>
      ledger_fetchCustomers a res_ledger_customers s_ledger = after_silent_error s_ledger (Select ''customers''))
   \<and> (error res_ledger_vendors = Some message \<longrightarrow>
      ledger_fetchVendors a res_ledger_vendors s_ledger = after_silent_error s_ledger (Select ''vendors''))
   \<and> (fst (ledger_validateForm (formData s_ledger)) \<and> falsy_str (editingId s_ledger) \<longrightarrow>
      ledger_handleSubmit a (Some message) a' next_ledger s_ledger =
        after_reported_error s_ledger (Toast_error ''Failed to Create Ledger Entry'' message)
          (Insert ''ledger_entries'' (ledger_entryData u (formData s_ledger))))
   \<and> (fst (ledger_validateForm (formData s_ledger)) \<and> editingId s_ledger = Some eid \<and> eid \<noteq> []
        \<longrightarrow>
      ledger_handleSubmit a (Some message) a' next_ledger s_ledger =
        after_reported_error s_ledger (Toast_error ''Failed to Update Ledger Entry'' message)
          (Update ''ledger_entries'' (ledger_entryData u (formData s_ledger)) [(''id'', eid), (''user_id'', u)]))
   \<and> ledger_handleDelete i True a (Some message) a' next_ledger s_ledger =
        after_reported_error s_ledger (Toast_error ''Failed to Delete Ledger Entry'' message)
          (Delete ''ledger_entries'' [(''id'', i), (''user_id'', u)])"
  by (intro conjI
      products_fetchProducts_error [OF assms]
      products_handleSubmit_create_error [OF assms]
      products_handleSubmit_update_error [OF assms]
      products_handleDelete_error [OF assms]
      saleItems_fetchSaleItems_error [OF assms]
      saleItems_fetchSales_error [OF assms]
      saleItems_fetchProducts_error [OF assms]
      saleItems_handleSubmit_create_error [OF assms]
      saleItems_handleSubmit_update_error [OF assms]
      saleItems_handleDelete_error [OF assms]
      purchaseItems_fetchPurchaseItems_error [OF assms]
      purchaseItems_fetchPurchases_error [OF assms]
      purchaseItems_fetchProducts_error [OF assms]
      purchaseItems_handleSubmit_create_error [OF assms]
      purchaseItems_handleSubmit_update_error [OF assms]
      purchaseItems_handleDelete_error [OF assms]
      vendors_fetchVendors_error [OF assms]
      vendors_handleSubmit_create_error [OF assms]
      vendors_handleSubmit_update_error [OF assms]
      vendors_handleDelete_error [OF assms]
      customers_fetchCustomers_error [OF assms]
      customers_handleSubmit_create_error [OF assms]
      customers_handleSubmit_update_error [OF assms]
      customers_handleDelete_error [OF assms]
      purchases_fetchPurchases_error [OF assms]
      purchases_fetchVendors_error [OF assms]
      purchases_handleSubmit_create_error [OF assms]
      purchases_handleSubmit_update_error [OF assms]
      purchases_handleDelete_error [OF assms]
      ledger_fetchLedgerEntries_error [OF assms]
      ledger_fetchCustomers_error [OF assms]
      ledger_fetchVendors_error [OF assms]
      ledger_handleSubmit_create_error [OF assms]
      ledger_handleSubmit_update_error [OF assms]
      ledger_handleDelete_error [OF assms])

theorem persistence_error_outcome_witness:
  "ledger_fetchLedgerEntries signed_in \<lparr>data = None, error = Some ''timeout''\<rparr> example_page =
     example_page\<lparr>toasts := [Toast_error ''Failed to Fetch Ledger Entries'' ''timeout''],
       calls := [Auth_getUser, Select ''ledger_entries'']\<rparr>
   \<and> ledger_fetchVendors signed_in \<lparr>data = None, error = Some ''timeout''\<rparr> example_page =
     example_page\<lparr>calls := [Auth_getUser, Select ''vendors'']\<rparr>
   \<and> ledger_handleSubmit signed_in (Some ''timeout'') signed_in \<lparr>data = None, error = None\<rparr>
       example_page =
     example_page\<lparr>toasts := [Toast_error ''Failed to Create Ledger Entry'' ''timeout''],
       calls := [Auth_getUser,
         Insert ''ledger_entries'' (ledger_entryData ''u1'' (formData example_page))]\<rparr>
   \<and> ledger_handleDelete ''e'' True signed_in (Some ''timeout'') signed_in
       \<lparr>data = None, error = None\<rparr> example_page =
     example_page\<lparr>toasts := [Toast_error ''Failed to Delete Ledger Entry'' ''timeout''],
       calls := [Auth_getUser, Delete ''ledger_entries'' [(''id'', ''e''), (''user_id'', ''u1'')]]\<rparr>
   \<and> saleItems_handleSubmit signed_in (Some ''timeout'') signed_in
       \<lparr>data = None, error = None\<rparr> example_saleItems_page =
     example_saleItems_page\<lparr>toasts := [Toast_error ''Failed to Update Sale Item'' ''timeout''],
       calls := [Auth_getUser,
         Update ''sale_items'' (saleItems_itemData (formData example_saleItems_page))
           [(''id'', ''i'')]]\<rparr>"
proof -
  have u: "user signed_in = Some ''u1''" "authError signed_in = None"
    by (simp_all add: signed_in_def)
  have v: "fst (ledger_validateForm (formData example_page))"
    by code_simp
  have w: "fst (saleItems_validateForm (formData example_saleItems_page))"
    by code_simp
  have e: "falsy_str (editingId example_page)" "loading example_page = False"
    "toasts example_page = []" "calls example_page = []"
    by (simp_all add: example_page_def falsy_str_def)
  have f: "editingId example_saleItems_page = Some ''i''" "''i'' \<noteq> []"
    "loading example_saleItems_page = False"
    "toasts example_saleItems_page = []" "calls example_saleItems_page = []"
    by (simp_all add: example_saleItems_page_def)
  have r: "error \<lparr>data = (None :: ledger_entry list option), error = Some ''timeout''\<rparr>
      = Some ''timeout''"
    "error \<lparr>data = (None :: party list option), error = Some ''timeout''\<rparr> = Some ''timeout''"
    by simp_all
  note t = persistence_error_outcome [OF u,
      where message = "''timeout''" and s_ledger = example_page
        and res_ledger = "\<lparr>data = None, error = Some ''timeout''\<rparr>"
        and res_ledger_vendors = "\<lparr>data = None, error = Some ''timeout''\<rparr>"
        and a' = signed_in and next_ledger = "\<lparr>data = None, error = None\<rparr>"
        and i = "''e''" and eid = "''i''"
        and s_saleItems = example_saleItems_page
        and next_saleItems = "\<lparr>data = None, error = None\<rparr>"]
  have l1: "ledger_fetchLedgerEntries signed_in \<lparr>data = None, error = Some ''timeout''\<rparr>
      example_page =
    after_reported_error example_page
      (Toast_error ''Failed to Fetch Ledger Entries'' ''timeout'') (Select ''ledger_entries'')"
    using t r by simp
  have l2: "ledger_fetchVendors signed_in \<lparr>data = None, error = Some ''timeout''\<rparr>
      example_page = after_silent_error example_page (Select ''vendors'')"
    using t r by simp
  have l3: "ledger_handleSubmit signed_in (Some ''timeout'') signed_in
      \<lparr>data = None, error = None\<rparr> example_page =
    after_reported_error example_page
      (Toast_error ''Failed to Create Ledger Entry'' ''timeout'')
      (Insert ''ledger_entries'' (ledger_entryData ''u1'' (formData example_page)))"
    using t v e(1) by simp
  have l4: "ledger_handleDelete ''e'' True signed_in (Some ''timeout'') signed_in
      \<lparr>data = None, error = None\<rparr> example_page =
    after_reported_error example_page
      (Toast_error ''Failed to Delete Ledger Entry'' ''timeout'')
      (Delete ''ledger_entries'' [(''id'', ''e''), (''user_id'', ''u1'')])"
    using t by simp
  have l5: "saleItems_handleSubmit signed_in (Some ''timeout'') signed_in
      \<lparr>data = None, error = None\<rparr> example_saleItems_page =
    after_reported_error example_saleItems_page
      (Toast_error ''Failed to Update Sale Item'' ''timeout'')
      (Update ''sale_items'' (saleItems_itemData (formData example_saleItems_page))
         [(''id'', ''i'')])"
    using t w f(1,2) by simp
  have a: "after_reported_error example_page t c =
      example_page\<lparr>toasts := [t], calls := [Auth_getUser, c]\<rparr>" for t c
    by (simp add: after_reported_error_def example_page_def)
  have b: "after_silent_error example_page c = example_page\<lparr>calls := [Auth_getUser, c]\<rparr>" for c
    by (simp add: after_silent_error_def example_page_def)
  have c: "after_reported_error example_saleItems_page t c =
      example_saleItems_page\<lparr>toasts := [t], calls := [Auth_getUser, c]\<rparr>" for t c
    by (simp add: after_reported_error_def example_saleItems_page_def)
  from l1 l2 l3 l4 l5 show ?thesis
    unfolding a b c by (intro conjI)
qed

end
